theory Spec2Isabelle
  imports Main
begin

section \<open>Strings\<close>

text \<open>
  Source strings are modelled as \<open>string\<close> (lists of characters).  The scanner only ever
  asks whether a fixed ASCII needle occurs in a text (\<^verbatim>\<open>String.prototype.includes\<close>):
  \<open>str_includes s sub\<close> holds when \<open>sub\<close> occurs in \<open>s\<close> as a contiguous block.
\<close>

fun startsWith :: "string \<Rightarrow> string \<Rightarrow> bool" where
  "startsWith s [] = True"
| "startsWith [] (c # cs) = False"
| "startsWith (x # xs) (c # cs) = (x = c \<and> startsWith xs cs)"

fun str_includes :: "string \<Rightarrow> string \<Rightarrow> bool" where
  "str_includes [] sub = (sub = [])"
| "str_includes (x # xs) sub = (startsWith (x # xs) sub \<or> str_includes xs sub)"


section \<open>Scanner: data model\<close>

text \<open>\<^verbatim>\<open>src/analyzers/compatibility.ts\<close>: the interfaces \<^verbatim>\<open>FileToTransform\<close> and
  \<^verbatim>\<open>ProjectAnalysis\<close>.\<close>

datatype fileType = Middleware | Config | Component | Api | Other

datatype complexityTier = Low | Medium | High

record FileToTransform =
  path :: string
  type :: fileType
  transformations :: "string list"

record ProjectAnalysis =
  isCompatible :: bool
  currentVersion :: string
  filesToTransform :: "FileToTransform list"
  issues :: "string list"
  recommendations :: "string list"
  complexity :: complexityTier
  estimatedTime :: string


section \<open>Scanner: per-file detection\<close>

text \<open>\<^verbatim>\<open>getFileType\<close>: the first matching substring test decides the category.\<close>

definition getFileType :: "string \<Rightarrow> fileType" where
  "getFileType filePath =
     (if str_includes filePath ''middleware'' \<or> str_includes filePath ''proxy'' then Middleware
      else if str_includes filePath ''next.config'' then Config
      else if str_includes filePath ''pages/api'' \<or> str_includes filePath ''app/api'' then Api
      else if str_includes filePath ''components'' \<or> str_includes filePath ''pages''
              \<or> str_includes filePath ''app'' then Component
      else Other)"

text \<open>
  The body of \<^verbatim>\<open>analyzeFile\<close> after the file has been read: the seven detection tests,
  in the order in which the source pushes their tags.  Each test either pushes its tag or
  does nothing, so the list is the concatenation of seven optional singletons.
\<close>

definition pushIf :: "bool \<Rightarrow> string \<Rightarrow> string list" where
  "pushIf b tag = (if b then [tag] else [])"

definition detectTransformations :: "string \<Rightarrow> string \<Rightarrow> string list" where
  "detectTransformations filePath content =
     pushIf (filePath = ''middleware.ts'' \<or> filePath = ''middleware.js'') ''middleware-to-proxy''
   @ pushIf (str_includes content ''revalidateTag'' \<and> \<not> str_includes content ''cacheLife'')
       ''update-revalidate-tag''
   @ pushIf (str_includes content ''revalidateTag('' \<and> \<not> str_includes content ''revalidateTag('')
       ''add-cache-life-profile''
   @ pushIf (str_includes content ''next/image'' \<or> str_includes content ''next/legacy/image'')
       ''update-next-image''
   @ pushIf (str_includes content ''params'' \<and> \<not> str_includes content ''await params'')
       ''make-params-async''
   @ pushIf (str_includes content ''searchParams'' \<and> \<not> str_includes content ''await searchParams'')
       ''make-search-params-async''
   @ pushIf ((str_includes content ''cookies()'' \<or> str_includes content ''headers()'')
             \<and> \<not> str_includes content ''await cookies()'' \<and> \<not> str_includes content ''await headers()'')
       ''make-cookies-headers-async''"

definition analyzeContent :: "string \<Rightarrow> string \<Rightarrow> FileToTransform" where
  "analyzeContent filePath content =
     \<lparr>path = filePath, type = getFileType filePath,
      transformations = detectTransformations filePath content\<rparr>"


section \<open>Scanner: complexity\<close>

text \<open>\<^verbatim>\<open>calculateComplexity\<close> overwrites the two derived fields of the report.\<close>

definition calculateComplexity :: "ProjectAnalysis \<Rightarrow> ProjectAnalysis" where
  "calculateComplexity analysis =
     (let fileCount = length (filesToTransform analysis);
          issueCount = length (issues analysis)
      in if fileCount > 50 \<or> issueCount > 5
         then analysis\<lparr>complexity := High, estimatedTime := ''30-60 minutes''\<rparr>
         else if fileCount > 20 \<or> issueCount > 2
         then analysis\<lparr>complexity := Medium, estimatedTime := ''15-30 minutes''\<rparr>
         else analysis\<lparr>complexity := Low, estimatedTime := ''5-15 minutes''\<rparr>)"

text \<open>The thresholds as the specification words them, for comparison with the code.\<close>

definition specTier :: "nat \<Rightarrow> nat \<Rightarrow> complexityTier" where
  "specTier fileCount issueCount =
     (if fileCount > 50 \<or> issueCount > 5 then High
      else if fileCount > 20 \<or> issueCount > 2 then Medium
      else Low)"

definition specTime :: "complexityTier \<Rightarrow> string" where
  "specTime t = (case t of High \<Rightarrow> ''30-60 minutes''
                 | Medium \<Rightarrow> ''15-30 minutes''
                 | Low \<Rightarrow> ''5-15 minutes'')"


section \<open>Errors\<close>

text \<open>
  Every exception of the source is a plain \<^verbatim>\<open>Error\<close> carrying a message.  The model keeps
  one constructor per throw site; \<open>message\<close> renders the text the source builds.
  \<open>FileAccessError\<close> stands for a failure raised by the file system itself (the message
  is the operating system's), \<open>ExternalError\<close> for one raised by another library.
\<close>

datatype error =
    FileAccessError string
  | FileNotFound string
  | TransformationFailed string string
  | BackupNotFound string
  | ExternalError string

fun message :: "error \<Rightarrow> string" where
  "message (FileAccessError p) = ''EACCES: cannot access '' @ p"
| "message (FileNotFound p) = ''File not found: '' @ p"
| "message (TransformationFailed tag m) = ''Transformation '' @ tag @ '' failed: '' @ m"
| "message (BackupNotFound b) = ''Backup '' @ b @ '' not found''"
| "message (ExternalError m) = m"


section \<open>Syntax trees\<close>

text \<open>
  The rewrite rules work on the syntax tree that jscodeshift builds.  The node kinds the
  rules inspect have their own constructor; every other kind is an \<open>OtherNode\<close> with its
  kind name and its children.
\<close>

datatype node =
    Identifier string
  | Literal string
  | CallExpression node "node list"
  | MemberExpression node node bool
  | AwaitExpression node
  | FunctionDeclaration "node option" "node list" node
  | FunctionExpression "node option" "node list" node
  | ExportDefaultDeclaration node
  | ImportDeclaration "node list" node
  | OtherNode string "node list"


section \<open>The world and its external collaborators\<close>

text \<open>
  A path of the project tree holds a regular file, a file that can be read but not
  written, a file without read permission, or a directory.  Paths are relative to the
  project root.
\<close>

datatype fsnode = RegularFile string | ReadOnlyFile string | NoAccess | Directory

datatype gitCommand = GitAdd | GitCommit string | GitResetHard string

record Backup =
  backup_id :: string
  timestamp :: string
  description :: string
  gitCommit :: "string option"
  filesBackup :: "string option"

text \<open>
  The mutable state of a run: the project tree, the backup catalog
  (\<^verbatim>\<open>metadata.json\<close>, absent or a list of records), the per-backup copy directories with
  their entries, and the version-control commands issued so far.
\<close>

record world =
  tree :: "string \<rightharpoonup> fsnode"
  metadata :: "Backup list option"
  backupDirs :: "string \<rightharpoonup> (string \<times> fsnode) list"
  gitLog :: "gitCommand list"

text \<open>The result structures of the rewrite engine (\<^verbatim>\<open>src/transformers/engine.ts\<close>), which
  the report generator reads.\<close>

datatype changeType = Transformation | Creation | Deletion

record Change =
  change_file :: string
  description :: string
  change_type :: changeType

record FileError =
  error_file :: string
  error_message :: string

record MigrationResult =
  successful :: nat
  failed :: nat
  changes :: "Change list"
  errors :: "FileError list"

record packageJson =
  dependencies :: "string \<rightharpoonup> string"
  devDependencies :: "string \<rightharpoonup> string"

text \<open>
  The libraries and the host the tool talks to are parameters of the model: what
  \<^verbatim>\<open>glob\<close> returns for a pattern, how JSON is parsed, how jscodeshift parses source
  text with a named parser and prints a tree, what the version-control tool answers (\<open>Inl\<close> is a thrown message), what a hard reset makes
  of the tree, the host's version string, the clock's rendering, the user's answer to the
  confirmation prompt, the effect of the project build that the performance measurement
  runs, and the rendered report.
\<close>

record env =
  glob :: "string \<Rightarrow> string list"
  parsePackageJson :: "string \<Rightarrow> string + packageJson"
  nodeVersion :: string
  jsParse :: "string \<Rightarrow> string \<Rightarrow> string + node"
  jsToSource :: "node \<Rightarrow> string"
  gitIsRepo :: "string + bool"
  gitStatusFiles :: "string + nat"
  gitAnswer :: "gitCommand \<Rightarrow> string + string"
  gitResetTree :: "string \<Rightarrow> (string \<rightharpoonup> fsnode) \<Rightarrow> (string \<rightharpoonup> fsnode)"
  toISOString :: "nat \<Rightarrow> string"
  confirmProceed :: bool
  npmRunBuild :: "world \<Rightarrow> world"
  renderReport :: "ProjectAnalysis \<Rightarrow> MigrationResult \<Rightarrow> string"


subsection \<open>File-system operations\<close>

definition pathExists :: "world \<Rightarrow> string \<Rightarrow> bool" where
  "pathExists w p = (tree w p \<noteq> None)"

definition readFile :: "world \<Rightarrow> string \<Rightarrow> error + string" where
  "readFile w p = (case tree w p of
                     Some (RegularFile c) \<Rightarrow> Inr c
                   | Some (ReadOnlyFile c) \<Rightarrow> Inr c
                   | _ \<Rightarrow> Inl (FileAccessError p))"

definition writeFile :: "string \<Rightarrow> string \<Rightarrow> world \<Rightarrow> error + world" where
  "writeFile p c w = (case tree w p of
                        Some (ReadOnlyFile _) \<Rightarrow> Inl (FileAccessError p)
                      | Some NoAccess \<Rightarrow> Inl (FileAccessError p)
                      | Some Directory \<Rightarrow> Inl (FileAccessError p)
                      | _ \<Rightarrow> Inr (w\<lparr>tree := (tree w)(p \<mapsto> RegularFile c)\<rparr>))"


section \<open>Backup manager\<close>

text \<open>\<^verbatim>\<open>src/utils/backup.ts\<close>.  Decimal rendering of the clock reading, for the backup id.\<close>

definition digitChar :: "nat \<Rightarrow> char" where
  "digitChar d = ''0123456789'' ! d"

function showNat :: "nat \<Rightarrow> string" where
  "showNat n = (if n < 10 then [digitChar n] else showNat (n div 10) @ [digitChar (n mod 10)])"
  by pat_completeness auto
termination
  by (relation "measure id") auto

declare showNat.simps [simp del]

definition backupDir :: string where
  "backupDir = ''.nextjs16-migrator/backups''"

definition joinPath :: "string \<Rightarrow> string \<Rightarrow> string" where
  "joinPath d f = d @ ''/'' @ f"

text \<open>One version-control command: it is recorded as issued, then answers or throws.\<close>

definition gitRun :: "env \<Rightarrow> gitCommand \<Rightarrow> world \<Rightarrow> (string + string) \<times> world" where
  "gitRun e c w = (gitAnswer e c, w\<lparr>gitLog := gitLog w @ [c]\<rparr>)"

text \<open>
  \<^verbatim>\<open>createGitBackup\<close>: the whole body is inside one \<^verbatim>\<open>try\<close>; any throw is logged and the
  result is \<^verbatim>\<open>undefined\<close>.
\<close>

definition createGitBackup :: "env \<Rightarrow> string \<Rightarrow> world \<Rightarrow> string option \<times> world" where
  "createGitBackup e backupId w =
     (case gitIsRepo e of
        Inl _ \<Rightarrow> (None, w)
      | Inr False \<Rightarrow> (None, w)
      | Inr True \<Rightarrow>
        (case gitStatusFiles e of
           Inl _ \<Rightarrow> (None, w)
         | Inr n \<Rightarrow>
           let (r0, w0) =
                 (if n > 0 then
                    (case gitRun e GitAdd w of
                       (Inl m, w1) \<Rightarrow> (Inl m, w1)
                     | (Inr _, w1) \<Rightarrow>
                         gitRun e (GitCommit (''Auto-commit before Next.js 16 migration backup ''
                                              @ backupId)) w1)
                  else (Inr [], w))
           in (case r0 of
                 Inl _ \<Rightarrow> (None, w0)
               | Inr _ \<Rightarrow>
                 (case gitRun e GitAdd w0 of
                    (Inl _, w2) \<Rightarrow> (None, w2)
                  | (Inr _, w2) \<Rightarrow>
                    (case gitRun e (GitCommit (''Next.js 16 migration backup: '' @ backupId)) w2 of
                       (Inl _, w3) \<Rightarrow> (None, w3)
                     | (Inr commit, w3) \<Rightarrow> (Some commit, w3))))))"

definition filesToBackup :: "string list" where
  "filesToBackup =
     [''package.json'', ''package-lock.json'', ''yarn.lock'', ''next.config.js'',
      ''next.config.ts'', ''tsconfig.json'', ''tailwind.config.js'', ''tailwind.config.ts'',
      ''.env.local'', ''.env'', ''middleware.ts'', ''proxy.ts'']"

definition putEntry :: "string \<Rightarrow> fsnode \<Rightarrow> (string \<times> fsnode) list \<Rightarrow> (string \<times> fsnode) list" where
  "putEntry name n entries = filter (\<lambda>e. fst e \<noteq> name) entries @ [(name, n)]"

text \<open>
  The copy loop of \<^verbatim>\<open>createFilesBackup\<close>: an existing source is copied into the backup
  directory, a directory as well as a file; a file without read permission makes the copy
  throw, and the copies made before stay.
\<close>

fun copyIntoBackup :: "string \<Rightarrow> string list \<Rightarrow> world \<Rightarrow> error option \<times> world" where
  "copyIntoBackup backupPath [] w = (None, w)"
| "copyIntoBackup backupPath (f # fs) w =
     (if pathExists w f then
        (case tree w f of
           Some NoAccess \<Rightarrow> (Some (FileAccessError f), w)
         | Some n \<Rightarrow>
             copyIntoBackup backupPath fs
               (w\<lparr>backupDirs := (backupDirs w)(backupPath \<mapsto>
                     putEntry f n (case backupDirs w backupPath of None \<Rightarrow> [] | Some es \<Rightarrow> es))\<rparr>)
         | None \<Rightarrow> copyIntoBackup backupPath fs w)
      else copyIntoBackup backupPath fs w)"

definition ensureDir :: "string \<Rightarrow> world \<Rightarrow> world" where
  "ensureDir d w = (case backupDirs w d of
                      None \<Rightarrow> w\<lparr>backupDirs := (backupDirs w)(d \<mapsto> [])\<rparr>
                    | Some _ \<Rightarrow> w)"

definition createFilesBackup :: "string \<Rightarrow> world \<Rightarrow> (error + string) \<times> world" where
  "createFilesBackup backupId w =
     (let backupPath = joinPath backupDir backupId
      in case copyIntoBackup backupPath filesToBackup (ensureDir backupPath w) of
           (Some err, w') \<Rightarrow> (Inl err, w')
         | (None, w') \<Rightarrow> (Inr backupPath, w'))"

definition saveBackupMetadata :: "Backup \<Rightarrow> world \<Rightarrow> world" where
  "saveBackupMetadata backup w =
     (let existing = (case metadata w of None \<Rightarrow> [] | Some m \<Rightarrow> m);
          unshifted = backup # existing;
          kept = (if length unshifted > 10 then take 10 unshifted else unshifted)
      in w\<lparr>metadata := Some kept\<rparr>)"

definition listBackups :: "world \<Rightarrow> Backup list" where
  "listBackups w = (case metadata w of None \<Rightarrow> [] | Some m \<Rightarrow> m)"

text \<open>
  \<^verbatim>\<open>createBackup\<close>, called when the clock reads \<open>now\<close>.  A throw of the file copy leaves
  the function before the catalog is written; what was done before the throw stays done.
\<close>

definition createBackup :: "env \<Rightarrow> nat \<Rightarrow> world \<Rightarrow> (error + string) \<times> world" where
  "createBackup e now w =
     (let backupId = ''backup-'' @ showNat now;
          stamp = toISOString e now;
          (commit, w1) = createGitBackup e backupId (ensureDir backupDir w)
      in case createFilesBackup backupId w1 of
           (Inl err, w2) \<Rightarrow> (Inl err, w2)
         | (Inr filesDir, w2) \<Rightarrow>
             (Inr backupId,
              saveBackupMetadata
                \<lparr>backup_id = backupId, timestamp = stamp,
                 description = ''Pre-migration backup'',
                 gitCommit = commit, filesBackup = Some filesDir\<rparr> w2))"

text \<open>A sequence of \<^verbatim>\<open>createBackup\<close> calls at the given clock readings, each of which
  returns; the ids are collected in call order.\<close>

fun createBackups :: "env \<Rightarrow> nat list \<Rightarrow> world \<Rightarrow> (string list \<times> world) option" where
  "createBackups e [] w = Some ([], w)"
| "createBackups e (now # rest) w =
     (case createBackup e now w of
        (Inl _, _) \<Rightarrow> None
      | (Inr backupId, w') \<Rightarrow>
          (case createBackups e rest w' of
             None \<Rightarrow> None
           | Some (ids, w'') \<Rightarrow> Some (backupId # ids, w'')))"

text \<open>
  The restore loop: every entry of the backup directory is copied onto the project root,
  overwriting what is there.  The copy throws on an entry that cannot be read, on a file
  that would replace a directory and on a directory that would replace a file; a copy
  that throws leaves the earlier copies made.
\<close>

fun copyOntoRoot :: "(string \<times> fsnode) list \<Rightarrow> world \<Rightarrow> error option \<times> world" where
  "copyOntoRoot [] w = (None, w)"
| "copyOntoRoot ((f, n) # es) w =
     (if n = NoAccess
         \<or> (n = Directory \<and> tree w f \<noteq> None \<and> tree w f \<noteq> Some Directory)
         \<or> (n \<noteq> Directory \<and> tree w f = Some Directory)
      then (Some (FileAccessError f), w)
      else copyOntoRoot es (w\<lparr>tree := (tree w)(f \<mapsto> n)\<rparr>))"

text \<open>
  \<^verbatim>\<open>restoreBackup\<close>.  The two \<^verbatim>\<open>if\<close> tests on optional strings are JavaScript
  truthiness tests: the field is present and not the empty string.
\<close>

definition restoreBackup :: "env \<Rightarrow> string \<Rightarrow> world \<Rightarrow> (error + unit) \<times> world" where
  "restoreBackup e backupId w =
     (case find (\<lambda>b. backup_id b = backupId) (listBackups w) of
        None \<Rightarrow> (Inl (BackupNotFound backupId), w)
      | Some backup \<Rightarrow>
          let w1 = (case gitCommit backup of
                      None \<Rightarrow> w
                    | Some revision \<Rightarrow>
                        if revision = [] then w
                        else (case gitRun e (GitResetHard revision) w of
                                (Inl _, w') \<Rightarrow> w'
                              | (Inr _, w') \<Rightarrow> w'\<lparr>tree := gitResetTree e revision (tree w')\<rparr>))
          in case filesBackup backup of
               None \<Rightarrow> (Inr (), w1)
             | Some dir \<Rightarrow>
                 if dir = [] then (Inr (), w1)
                 else (case backupDirs w1 dir of
                         None \<Rightarrow> (Inr (), w1)
                       | Some entries \<Rightarrow>
                           (case copyOntoRoot entries w1 of
                              (Some err, w2) \<Rightarrow> (Inl err, w2)
                            | (None, w2) \<Rightarrow> (Inr (), w2))))"


section \<open>Scanner: the whole analysis\<close>

text \<open>\<^verbatim>\<open>analyzeFile\<close>: the read is not guarded, so a failing read is a throw.\<close>

definition analyzeFile :: "world \<Rightarrow> string \<Rightarrow> error + FileToTransform" where
  "analyzeFile w filePath =
     (case readFile w filePath of
        Inl err \<Rightarrow> Inl err
      | Inr content \<Rightarrow> Inr (analyzeContent filePath content))"

definition patterns :: "string list" where
  "patterns =
     [''middleware.ts'', ''middleware.js'', ''next.config.js'', ''next.config.ts'',
      ''next.config.mjs'', ''pages/**/*.tsx'', ''pages/**/*.jsx'', ''pages/**/*.ts'',
      ''pages/**/*.js'', ''app/**/*.tsx'', ''app/**/*.jsx'', ''app/**/*.ts'', ''app/**/*.js'',
      ''components/**/*.tsx'', ''components/**/*.jsx'', ''lib/**/*.ts'', ''lib/**/*.js'',
      ''utils/**/*.ts'', ''utils/**/*.js'']"

text \<open>The inner loop of \<^verbatim>\<open>findFilesToTransform\<close>, over the files of one pattern.\<close>

fun analyzeFiles :: "world \<Rightarrow> string list \<Rightarrow> ProjectAnalysis \<Rightarrow> error + ProjectAnalysis" where
  "analyzeFiles w [] analysis = Inr analysis"
| "analyzeFiles w (f # fs) analysis =
     (case analyzeFile w f of
        Inl err \<Rightarrow> Inl err
      | Inr fileAnalysis \<Rightarrow>
          analyzeFiles w fs
            (if length (transformations fileAnalysis) > 0
             then analysis\<lparr>filesToTransform := filesToTransform analysis @ [fileAnalysis]\<rparr>
             else analysis))"

text \<open>The outer loop, over the patterns.\<close>

fun scanPatterns :: "env \<Rightarrow> world \<Rightarrow> string list \<Rightarrow> ProjectAnalysis \<Rightarrow> error + ProjectAnalysis" where
  "scanPatterns e w [] analysis = Inr analysis"
| "scanPatterns e w (p # ps) analysis =
     (case analyzeFiles w (glob e p) analysis of
        Inl err \<Rightarrow> Inl err
      | Inr analysis' \<Rightarrow> scanPatterns e w ps analysis')"

definition findFilesToTransform :: "env \<Rightarrow> world \<Rightarrow> ProjectAnalysis \<Rightarrow> error + ProjectAnalysis" where
  "findFilesToTransform e w analysis = scanPatterns e w patterns analysis"

subsection \<open>Versions\<close>

text \<open>
  \<^verbatim>\<open>parseVersion\<close> takes the leftmost match of \<^verbatim>\<open>(\d+)\.(\d+)\.(\d+)\<close>.  A greedy run of
  digits followed by a dot can only match with the whole run, so the match anchored at a
  position is found by taking maximal runs.
\<close>

definition isDigit :: "char \<Rightarrow> bool" where
  "isDigit c = (c \<in> set ''0123456789'')"

definition digitValue :: "char \<Rightarrow> nat" where
  "digitValue c = length (takeWhile (\<lambda>d. d \<noteq> c) ''0123456789'')"

definition digitsToNat :: "string \<Rightarrow> nat" where
  "digitsToNat ds = foldl (\<lambda>acc c. 10 * acc + digitValue c) 0 ds"

definition matchVersionAt :: "string \<Rightarrow> (string \<times> string \<times> string) option" where
  "matchVersionAt s =
     (let a = takeWhile isDigit s in
      if a = [] then None
      else case dropWhile isDigit s of
             c1 # r1 \<Rightarrow>
               if c1 \<noteq> CHR ''.'' then None
               else let b = takeWhile isDigit r1 in
                    if b = [] then None
                    else (case dropWhile isDigit r1 of
                            c2 # r2 \<Rightarrow>
                              if c2 \<noteq> CHR ''.'' then None
                              else let c = takeWhile isDigit r2 in
                                   if c = [] then None else Some (a, b, c)
                          | [] \<Rightarrow> None)
           | [] \<Rightarrow> None)"

fun matchVersion :: "string \<Rightarrow> (string \<times> string \<times> string) option" where
  "matchVersion [] = None"
| "matchVersion (x # xs) =
     (case matchVersionAt (x # xs) of
        Some m \<Rightarrow> Some m
      | None \<Rightarrow> matchVersion xs)"

record version =
  major :: nat
  minor :: nat
  patch :: nat

definition parseVersion :: "string \<Rightarrow> version" where
  "parseVersion v =
     (case matchVersion v of
        Some (a, b, c) \<Rightarrow> \<lparr>major = digitsToNat a, minor = digitsToNat b, patch = digitsToNat c\<rparr>
      | None \<Rightarrow> \<lparr>major = 0, minor = 0, patch = 0\<rparr>)"

text \<open>
  \<^verbatim>\<open>parseInt\<close> on the leading component of a version string: the value of the leading
  digits, or nothing (\<^verbatim>\<open>NaN\<close>) when the string does not start with a digit.
\<close>

definition parseInt :: "string \<Rightarrow> nat option" where
  "parseInt s = (let ds = takeWhile isDigit s in if ds = [] then None else Some (digitsToNat ds))"

subsection \<open>The manifest\<close>

text \<open>A dependency entry counts when it is present and not the empty string.\<close>

definition dep :: "(string \<rightharpoonup> string) \<Rightarrow> string \<Rightarrow> string option" where
  "dep m k = (case m k of None \<Rightarrow> None | Some v \<Rightarrow> if v = [] then None else Some v)"

definition orElse :: "string option \<Rightarrow> string option \<Rightarrow> string option" where
  "orElse a b = (case a of Some v \<Rightarrow> Some v | None \<Rightarrow> b)"

definition problematicDeps :: "string list" where
  "problematicDeps = [''next-amp'', ''next-pwa'', ''next-seo'']"

fun checkDeps :: "packageJson \<Rightarrow> string list \<Rightarrow> ProjectAnalysis \<Rightarrow> ProjectAnalysis" where
  "checkDeps pkg [] analysis = analysis"
| "checkDeps pkg (d # ds) analysis =
     checkDeps pkg ds
       (if orElse (dep (dependencies pkg) d) (dep (devDependencies pkg) d) \<noteq> None
        then analysis\<lparr>issues := issues analysis
                          @ [''Dependency '' @ d @ '' may not be compatible with Next.js 16''],
                       recommendations := recommendations analysis
                          @ [''Consider updating or removing '' @ d]\<rparr>
        else analysis)"

definition analyzePackageJson :: "env \<Rightarrow> world \<Rightarrow> ProjectAnalysis \<Rightarrow> error + ProjectAnalysis" where
  "analyzePackageJson e w analysis =
     (if \<not> pathExists w ''package.json''
      then Inr (analysis\<lparr>issues := issues analysis @ [''No package.json found''],
                         isCompatible := False\<rparr>)
      else case readFile w ''package.json'' of
             Inl err \<Rightarrow> Inl err
           | Inr text \<Rightarrow>
             (case parsePackageJson e text of
                Inl m \<Rightarrow> Inl (ExternalError m)
              | Inr pkg \<Rightarrow>
                  let a1 =
                    (case orElse (dep (dependencies pkg) ''next'') (dep (devDependencies pkg) ''next'') of
                       Some nextVersion \<Rightarrow>
                         let a0 = analysis\<lparr>currentVersion := nextVersion\<rparr> in
                         if major (parseVersion nextVersion) < 14
                         then a0\<lparr>issues := issues a0
                                    @ [''Next.js version '' @ nextVersion
                                       @ '' is too old. Need version 14+ for migration to 16.''],
                                 isCompatible := False\<rparr>
                         else a0
                     | None \<Rightarrow>
                         analysis\<lparr>issues := issues analysis @ [''Next.js not found in dependencies''],
                                  isCompatible := False\<rparr>)
                  in Inr (checkDeps pkg problematicDeps a1)))"

subsection \<open>Compatibility checks\<close>

fun checkConfigFiles :: "world \<Rightarrow> string list \<Rightarrow> ProjectAnalysis \<Rightarrow> error + ProjectAnalysis" where
  "checkConfigFiles w [] analysis = Inr analysis"
| "checkConfigFiles w (f # fs) analysis =
     (case readFile w f of
        Inl err \<Rightarrow> Inl err
      | Inr content \<Rightarrow>
          checkConfigFiles w fs
            (if str_includes content ''experimental.ppr''
             then analysis\<lparr>issues := issues analysis
                               @ [''experimental.ppr flag has been removed in Next.js 16''],
                            recommendations := recommendations analysis
                               @ [''Use cacheComponents configuration instead'']\<rparr>
             else analysis))"

definition checkCompatibility :: "env \<Rightarrow> world \<Rightarrow> ProjectAnalysis \<Rightarrow> error + ProjectAnalysis" where
  "checkCompatibility e w analysis =
     (let a1 = (if length (glob e ''**/*.amp.*'') > 0
                then analysis\<lparr>issues := issues analysis
                                  @ [''AMP support has been removed in Next.js 16''],
                               recommendations := recommendations analysis
                                  @ [''Remove AMP files and configurations'']\<rparr>
                else analysis)
      in case checkConfigFiles w (glob e ''next.config.*'') a1 of
           Inl err \<Rightarrow> Inl err
         | Inr a2 \<Rightarrow>
             (case parseInt (takeWhile (\<lambda>c. c \<noteq> CHR ''.'') (drop 1 (nodeVersion e))) of
                Some majorVersion \<Rightarrow>
                  if majorVersion < 20
                  then Inr (a2\<lparr>issues := issues a2
                                  @ [''Node.js '' @ nodeVersion e
                                     @ '' is not supported. Next.js 16 requires Node.js 20.9+''],
                               isCompatible := False\<rparr>)
                  else Inr a2
              | None \<Rightarrow> Inr a2))"

definition initialAnalysis :: ProjectAnalysis where
  "initialAnalysis =
     \<lparr>isCompatible = True, currentVersion = ''unknown'', filesToTransform = [], issues = [],
      recommendations = [], complexity = Low, estimatedTime = ''5-10 minutes''\<rparr>"

definition analyze :: "env \<Rightarrow> world \<Rightarrow> error + ProjectAnalysis" where
  "analyze e w =
     (case analyzePackageJson e w initialAnalysis of
        Inl err \<Rightarrow> Inl err
      | Inr a1 \<Rightarrow>
        (case findFilesToTransform e w a1 of
           Inl err \<Rightarrow> Inl err
         | Inr a2 \<Rightarrow>
           (case checkCompatibility e w a2 of
              Inl err \<Rightarrow> Inl err
            | Inr a3 \<Rightarrow> Inr (calculateComplexity a3))))"


section \<open>Rewrite engine\<close>

text \<open>\<^verbatim>\<open>src/transformers/engine.ts\<close>.\<close>

subsection \<open>Rewrite rules on the tree\<close>

text \<open>
  Every rule has the shape \<^verbatim>\<open>root.find(Kind).filter(test).forEach(mutate)\<close>: the nodes of
  one kind are collected over the whole tree, and each collected node that passes the test
  is mutated in place.  \<open>mapNodes f\<close> applies the node-local step \<open>f\<close> at every node of the
  tree, below a node before at the node itself.  The tests of the rules read only the kind
  of a node, the number of its arguments and the names of identifier or literal children,
  none of which a step below the node changes, and a node that a step adds is never of
  the kind the rule collects.
\<close>

fun mapNodes :: "(node \<Rightarrow> node) \<Rightarrow> node \<Rightarrow> node" where
  "mapNodes f (Identifier x) = f (Identifier x)"
| "mapNodes f (Literal v) = f (Literal v)"
| "mapNodes f (CallExpression callee args) =
     f (CallExpression (mapNodes f callee) (map (mapNodes f) args))"
| "mapNodes f (MemberExpression obj prop computed) =
     f (MemberExpression (mapNodes f obj) (mapNodes f prop) computed)"
| "mapNodes f (AwaitExpression arg) = f (AwaitExpression (mapNodes f arg))"
| "mapNodes f (FunctionDeclaration name params body) =
     f (FunctionDeclaration (map_option (mapNodes f) name) (map (mapNodes f) params)
          (mapNodes f body))"
| "mapNodes f (FunctionExpression name params body) =
     f (FunctionExpression (map_option (mapNodes f) name) (map (mapNodes f) params)
          (mapNodes f body))"
| "mapNodes f (ExportDefaultDeclaration decl) = f (ExportDefaultDeclaration (mapNodes f decl))"
| "mapNodes f (ImportDeclaration specifiers source) =
     f (ImportDeclaration (map (mapNodes f) specifiers) (mapNodes f source))"
| "mapNodes f (OtherNode k children) = f (OtherNode k (map (mapNodes f) children))"

text \<open>\<^verbatim>\<open>transformMiddlewareToProxy\<close>, at a default export.\<close>

fun renameDefaultExport :: "node \<Rightarrow> node" where
  "renameDefaultExport (ExportDefaultDeclaration (FunctionDeclaration (Some (Identifier n)) params body)) =
     ExportDefaultDeclaration
       (FunctionDeclaration (Some (Identifier (if n = ''middleware'' then ''proxy'' else n)))
          params body)"
| "renameDefaultExport (ExportDefaultDeclaration (FunctionExpression name params body)) =
     ExportDefaultDeclaration (FunctionDeclaration (Some (Identifier ''proxy'')) params body)"
| "renameDefaultExport n = n"

text \<open>\<^verbatim>\<open>updateRevalidateTag\<close>, at a call whose callee is an identifier.\<close>

fun pushMax :: "node \<Rightarrow> node" where
  "pushMax (CallExpression (Identifier n) args) =
     (if n = ''revalidateTag'' \<and> length args = 1
      then CallExpression (Identifier n) (args @ [Literal ''max''])
      else CallExpression (Identifier n) args)"
| "pushMax n = n"

text \<open>\<^verbatim>\<open>updateNextImage\<close>, at an import whose source is a literal.\<close>

fun replaceLegacyImage :: "node \<Rightarrow> node" where
  "replaceLegacyImage (ImportDeclaration specifiers (Literal v)) =
     ImportDeclaration specifiers (Literal (if v = ''next/legacy/image'' then ''next/image'' else v))"
| "replaceLegacyImage n = n"

text \<open>
  \<^verbatim>\<open>makeParamsAsync\<close> and \<^verbatim>\<open>makeSearchParamsAsync\<close>: an identifier of the given name whose
  parent is a member expression has that parent replaced by a member expression on the
  awaited identifier, keeping the parent's property and computed flag.
\<close>

fun awaitMember :: "string \<Rightarrow> node \<Rightarrow> node" where
  "awaitMember name (MemberExpression obj prop computed) =
     (if obj = Identifier name \<or> prop = Identifier name
      then MemberExpression (AwaitExpression (Identifier name)) prop computed
      else MemberExpression obj prop computed)"
| "awaitMember name n = n"

text \<open>\<^verbatim>\<open>makeCookiesHeadersAsync\<close>, at a call whose callee is an identifier.\<close>

fun awaitCallee :: "node \<Rightarrow> node" where
  "awaitCallee (CallExpression (Identifier n) args) =
     (if n = ''cookies'' \<or> n = ''headers''
      then CallExpression (AwaitExpression (Identifier n)) args
      else CallExpression (Identifier n) args)"
| "awaitCallee n = n"

subsection \<open>Rules on source text\<close>

text \<open>
  The rules are written as jscodeshift transforms: a rule receives the source text and an
  API object, takes the parsing function from the field \<^verbatim>\<open>jscodeshift\<close> of that object,
  parses the text, rewrites the tree and prints it.  \<open>JSCodeshift\<close> is the parsing function
  together with its printer; \<open>API\<close> is the object a rule receives, of which the one field
  the rules read is kept.
\<close>

record JSCodeshift =
  parseSource :: "string \<Rightarrow> string + node"
  printSource :: "node \<Rightarrow> string"

record API =
  jscodeshift :: "JSCodeshift option"

text \<open>\<^verbatim>\<open>jscodeshift.withParser(parser)\<close>: the parsing function for the named parser.\<close>

definition withParser :: "env \<Rightarrow> string \<Rightarrow> JSCodeshift" where
  "withParser e parser = \<lparr>parseSource = jsParse e parser, printSource = jsToSource e\<rparr>"

text \<open>
  \<^verbatim>\<open>transformFile\<close> passes that function itself where the rules expect the API object
  (\<^verbatim>\<open>const api = jscodeshift.withParser('tsx') as any\<close>).  The function carries the node
  builders, the named types and its helper methods as properties, and none that is called
  \<^verbatim>\<open>jscodeshift\<close>: read as an API object, its field \<^verbatim>\<open>jscodeshift\<close> is undefined.
\<close>

definition asAny :: "JSCodeshift \<Rightarrow> API" where
  "asAny j = \<lparr>jscodeshift = None\<rparr>"

text \<open>The API object that a jscodeshift run hands to a transform: its field holds the
  parsing function.\<close>

definition runnerAPI :: "JSCodeshift \<Rightarrow> API" where
  "runnerAPI j = \<lparr>jscodeshift = Some j\<rparr>"

text \<open>
  The frame shared by the six tree rules:
  \<^verbatim>\<open>const j = api.jscodeshift; const root = j(fileInfo.source); ...; return root.toSource()\<close>.
  Calling the undefined field throws the type error \<^verbatim>\<open>j is not a function\<close>; a parse error
  is a throw with the parser's message.
\<close>

definition rewriteSource :: "API \<Rightarrow> (node \<Rightarrow> node) \<Rightarrow> string \<Rightarrow> string + string" where
  "rewriteSource api f source =
     (case jscodeshift api of
        None \<Rightarrow> Inl ''j is not a function''
      | Some j \<Rightarrow>
          (case parseSource j source of
             Inl m \<Rightarrow> Inl m
           | Inr root \<Rightarrow> Inr (printSource j (mapNodes f root))))"

definition transformMiddlewareToProxy :: "API \<Rightarrow> string \<Rightarrow> string + string" where
  "transformMiddlewareToProxy api = rewriteSource api renameDefaultExport"

definition updateRevalidateTag :: "API \<Rightarrow> string \<Rightarrow> string + string" where
  "updateRevalidateTag api = rewriteSource api pushMax"

definition addCacheLifeProfile :: "API \<Rightarrow> string \<Rightarrow> string + string" where
  "addCacheLifeProfile api source = Inr source"

definition updateNextImage :: "API \<Rightarrow> string \<Rightarrow> string + string" where
  "updateNextImage api = rewriteSource api replaceLegacyImage"

definition makeParamsAsync :: "API \<Rightarrow> string \<Rightarrow> string + string" where
  "makeParamsAsync api = rewriteSource api (awaitMember ''params'')"

definition makeSearchParamsAsync :: "API \<Rightarrow> string \<Rightarrow> string + string" where
  "makeSearchParamsAsync api = rewriteSource api (awaitMember ''searchParams'')"

definition makeCookiesHeadersAsync :: "API \<Rightarrow> string \<Rightarrow> string + string" where
  "makeCookiesHeadersAsync api = rewriteSource api awaitCallee"

text \<open>
  The registry built by \<^verbatim>\<open>initializeTransformations\<close>.  \<^verbatim>\<open>transformFile\<close> calls every rule
  with the same second argument, the function \<^verbatim>\<open>jscodeshift.withParser('tsx')\<close> cast to the
  API type; the registry is given here with that argument supplied.
\<close>

definition transformers :: "env \<Rightarrow> string \<rightharpoonup> (string \<Rightarrow> string + string)" where
  "transformers e =
     (let api = asAny (withParser e ''tsx'') in
      map_of
        [(''middleware-to-proxy'', transformMiddlewareToProxy api),
         (''update-revalidate-tag'', updateRevalidateTag api),
         (''add-cache-life-profile'', addCacheLifeProfile api),
         (''update-next-image'', updateNextImage api),
         (''make-params-async'', makeParamsAsync api),
         (''make-search-params-async'', makeSearchParamsAsync api),
         (''make-cookies-headers-async'', makeCookiesHeadersAsync api)])"

definition getTransformationDescription :: "string \<Rightarrow> string" where
  "getTransformationDescription transformation =
     (case map_of
             [(''middleware-to-proxy'', ''Convert middleware.ts to proxy.ts''),
              (''update-revalidate-tag'', ''Update revalidateTag calls with cacheLife profile''),
              (''add-cache-life-profile'', ''Add cacheLife profile to revalidateTag''),
              (''update-next-image'', ''Update next/image imports and usage''),
              (''make-params-async'', ''Make params usage async''),
              (''make-search-params-async'', ''Make searchParams usage async''),
              (''make-cookies-headers-async'', ''Make cookies/headers usage async'')]
             transformation of
        Some d \<Rightarrow> d
      | None \<Rightarrow> transformation)"

subsection \<open>One file\<close>

text \<open>
  The tag loop of \<^verbatim>\<open>transformFile\<close>: each registered tag is applied to the text produced
  so far and logs one change; the first rule that throws ends the loop with the wrapped
  error.  A tag without a registered rule is passed over.
\<close>

fun applyTransformations ::
  "env \<Rightarrow> string \<Rightarrow> string list \<Rightarrow> string \<Rightarrow> Change list \<Rightarrow> error + (string \<times> Change list)" where
  "applyTransformations e p [] transformedSource chs = Inr (transformedSource, chs)"
| "applyTransformations e p (t # ts) transformedSource chs =
     (case transformers e t of
        None \<Rightarrow> applyTransformations e p ts transformedSource chs
      | Some transformer \<Rightarrow>
          (case transformer transformedSource of
             Inl m \<Rightarrow> Inl (TransformationFailed t m)
           | Inr out \<Rightarrow>
               applyTransformations e p ts out
                 (chs @ [\<lparr>change_file = p, description = getTransformationDescription t,
                          change_type = Transformation\<rparr>])))"

definition transformFile :: "env \<Rightarrow> FileToTransform \<Rightarrow> world \<Rightarrow> (error + Change list) \<times> world" where
  "transformFile e fileToTransform w =
     (if \<not> pathExists w (path fileToTransform)
      then (Inl (FileNotFound (path fileToTransform)), w)
      else case readFile w (path fileToTransform) of
             Inl err \<Rightarrow> (Inl err, w)
           | Inr source \<Rightarrow>
             (case applyTransformations e (path fileToTransform)
                     (transformations fileToTransform) source [] of
                Inl err \<Rightarrow> (Inl err, w)
              | Inr (transformedSource, chs) \<Rightarrow>
                  if transformedSource \<noteq> source
                  then (case writeFile (path fileToTransform) transformedSource w of
                          Inl err \<Rightarrow> (Inl err, w)
                        | Inr w' \<Rightarrow> (Inr chs, w'))
                  else (Inr chs, w)))"

subsection \<open>The batch\<close>

text \<open>The file loop of \<^verbatim>\<open>migrate\<close>: a file that throws is counted and its message kept;
  the loop goes on with the next file.\<close>

fun migrateFiles ::
  "env \<Rightarrow> FileToTransform list \<Rightarrow> MigrationResult \<Rightarrow> world \<Rightarrow> MigrationResult \<times> world" where
  "migrateFiles e [] result w = (result, w)"
| "migrateFiles e (f # fs) result w =
     (case transformFile e f w of
        (Inr fileChanges, w') \<Rightarrow>
          migrateFiles e fs
            (result\<lparr>successful := successful result + 1,
                    changes := changes result @ fileChanges\<rparr>) w'
      | (Inl err, w') \<Rightarrow>
          migrateFiles e fs
            (result\<lparr>failed := failed result + 1,
                    errors := errors result
                       @ [\<lparr>error_file = path f, error_message = message err\<rparr>]\<rparr>) w')"

definition emptyResult :: MigrationResult where
  "emptyResult = \<lparr>successful = 0, failed = 0, changes = [], errors = []\<rparr>"

definition migrate :: "env \<Rightarrow> world \<Rightarrow> (error + MigrationResult) \<times> world" where
  "migrate e w =
     (case analyze e w of
        Inl err \<Rightarrow> (Inl err, w)
      | Inr analysis \<Rightarrow>
          (case migrateFiles e (filesToTransform analysis) emptyResult w of
             (result, w') \<Rightarrow> (Inr result, w')))"

definition previewChanges :: "env \<Rightarrow> world \<Rightarrow> error + Change list" where
  "previewChanges e w =
     (case analyze e w of
        Inl err \<Rightarrow> Inl err
      | Inr analysis \<Rightarrow>
          Inr (concat (map (\<lambda>f. map (\<lambda>t. \<lparr>change_file = path f,
                                            description = getTransformationDescription t,
                                            change_type = Transformation\<rparr>)
                                   (transformations f))
                       (filesToTransform analysis))))"


section \<open>The migrate command\<close>

text \<open>
  \<^verbatim>\<open>src/cli/commands/migrate.ts\<close>.  The option \<open>backup\<close> is absent unless the user passed
  \<^verbatim>\<open>--no-backup\<close>, which sets it to false.  The command either throws or ends in one of
  four ways.
\<close>

record MigrateOptions =
  dryRun :: bool
  yes :: bool
  backup :: "bool option"
  performance :: bool
  batch :: bool

datatype outcome =
    NotCompatible "string list"
  | Cancelled
  | DryRunCompleted "Change list"
  | Completed MigrationResult

definition migrateCommand ::
  "env \<Rightarrow> nat \<Rightarrow> MigrateOptions \<Rightarrow> world \<Rightarrow> (error + outcome) \<times> world" where
  "migrateCommand e now options w =
     (case analyze e w of
        Inl err \<Rightarrow> (Inl err, w)
      | Inr analysis \<Rightarrow>
        if \<not> isCompatible analysis then (Inr (NotCompatible (issues analysis)), w)
        else
          (case (if backup options \<noteq> Some False
                 then (case createBackup e now w of
                         (Inl err, w1) \<Rightarrow> (Some err, w1)
                       | (Inr _, w1) \<Rightarrow> (None, w1))
                 else (None, w)) of
             (Some err, w1) \<Rightarrow> (Inl err, w1)
           | (None, w1) \<Rightarrow>
             if \<not> batch options \<and> \<not> yes options \<and> \<not> confirmProceed e
             then (Inr Cancelled, w1)
             else
               let w2 = (if performance options then npmRunBuild e w1 else w1) in
               if dryRun options
               then (case previewChanges e w2 of
                       Inl err \<Rightarrow> (Inl err, w2)
                     | Inr chs \<Rightarrow> (Inr (DryRunCompleted chs), w2))
               else
                 (case migrate e w2 of
                    (Inl err, w3) \<Rightarrow> (Inl err, w3)
                  | (Inr results, w3) \<Rightarrow>
                    (case analyze e w3 of
                       Inl err \<Rightarrow> (Inl err, w3)
                     | Inr postAnalysis \<Rightarrow>
                         let w4 = (if performance options then npmRunBuild e w3 else w3) in
                         (case writeFile ''migration-report.html'' (renderReport e analysis results) w4 of
                            Inl err \<Rightarrow> (Inl err, w4)
                          | Inr w5 \<Rightarrow> (Inr (Completed results), w5))))))"


section \<open>The call expressions of a tree\<close>

text \<open>
  What \<^verbatim>\<open>root.find(j.CallExpression)\<close> collects: every call expression of the tree, a
  call before the calls inside its callee and arguments.
\<close>

fun findCalls :: "node \<Rightarrow> node list" where
  "findCalls (Identifier x) = []"
| "findCalls (Literal v) = []"
| "findCalls (CallExpression callee args) =
     CallExpression callee args # findCalls callee @ concat (map findCalls args)"
| "findCalls (MemberExpression obj prop computed) = findCalls obj @ findCalls prop"
| "findCalls (AwaitExpression arg) = findCalls arg"
| "findCalls (FunctionDeclaration name params body) =
     (case name of None \<Rightarrow> [] | Some n \<Rightarrow> findCalls n)
     @ concat (map findCalls params) @ findCalls body"
| "findCalls (FunctionExpression name params body) =
     (case name of None \<Rightarrow> [] | Some n \<Rightarrow> findCalls n)
     @ concat (map findCalls params) @ findCalls body"
| "findCalls (ExportDefaultDeclaration decl) = findCalls decl"
| "findCalls (ImportDeclaration specifiers source) =
     concat (map findCalls specifiers) @ findCalls source"
| "findCalls (OtherNode k children) = concat (map findCalls children)"


section \<open>An example project\<close>

text \<open>
  A small project on which the definitions above are run: four candidate files, of which
  one needs no rewrite, a manifest, and the parser's and printer's answers on the text of
  the file with the cache-invalidation call and on its rewritten form.
\<close>

definition cacheSource :: string where
  "cacheSource = ''revalidateTag(tag)''"

definition cacheRewritten :: string where
  "cacheRewritten = ''revalidateTag(tag, '' @ [CHR 0x22] @ ''max'' @ [CHR 0x22] @ '')''"

definition heroSource :: string where
  "heroSource = ''import Image from '' @ [CHR 0x22] @ ''next/legacy/image'' @ [CHR 0x22] @ '';''"

definition pageSource :: string where
  "pageSource = ''const id = params.id;''"

definition utilSource :: string where
  "utilSource = ''export const x = 1;''"

definition cacheTree :: node where
  "cacheTree =
     OtherNode ''Program''
       [OtherNode ''ExpressionStatement''
          [CallExpression (Identifier ''revalidateTag'') [Identifier ''tag'']]]"

definition cacheTreeRewritten :: node where
  "cacheTreeRewritten =
     OtherNode ''Program''
       [OtherNode ''ExpressionStatement''
          [CallExpression (Identifier ''revalidateTag'') [Identifier ''tag'', Literal ''max'']]]"

definition exampleParse :: "string \<Rightarrow> string + node" where
  "exampleParse s =
     (case map_of [(cacheSource, cacheTree), (cacheRewritten, cacheTreeRewritten)] s of
        Some t \<Rightarrow> Inr t
      | None \<Rightarrow> Inl ''Unexpected token'')"

definition exampleToSource :: "node \<Rightarrow> string" where
  "exampleToSource t =
     (case map_of [(cacheTree, cacheSource), (cacheTreeRewritten, cacheRewritten)] t of
        Some s \<Rightarrow> s
      | None \<Rightarrow> [])"

definition exampleEnv :: env where
  "exampleEnv =
     \<lparr>glob = (\<lambda>p. if p = ''lib/**/*.ts'' then [''lib/cache.ts'', ''lib/util.ts'']
                  else if p = ''components/**/*.tsx'' then [''components/Hero.tsx'']
                  else if p = ''app/**/*.tsx'' then [''app/page.tsx'']
                  else []),
      parsePackageJson = (\<lambda>_. Inr \<lparr>dependencies = [''next'' \<mapsto> ''^15.1.0''],
                                     devDependencies = Map.empty\<rparr>),
      nodeVersion = ''v20.9.0'',
      jsParse = (\<lambda>_. exampleParse),
      jsToSource = exampleToSource,
      gitIsRepo = Inr False,
      gitStatusFiles = Inr 0,
      gitAnswer = (\<lambda>_. Inr []),
      gitResetTree = (\<lambda>_ t. t),
      toISOString = showNat,
      confirmProceed = True,
      npmRunBuild = (\<lambda>w. w),
      renderReport = (\<lambda>_ _. ''<html></html>'')\<rparr>"

text \<open>The same environment on a host whose runtime is too old.\<close>

definition oldNodeEnv :: env where
  "oldNodeEnv = exampleEnv\<lparr>nodeVersion := ''v18.17.0''\<rparr>"

definition exampleWorld :: world where
  "exampleWorld =
     \<lparr>tree = [''package.json'' \<mapsto> RegularFile ''{}'',
              ''lib/cache.ts'' \<mapsto> RegularFile cacheSource,
              ''lib/util.ts'' \<mapsto> RegularFile utilSource,
              ''components/Hero.tsx'' \<mapsto> RegularFile heroSource,
              ''app/page.tsx'' \<mapsto> RegularFile pageSource],
      metadata = None, backupDirs = Map.empty, gitLog = []\<rparr>"

text \<open>The same project with one candidate file that cannot be read.\<close>

definition unreadableWorld :: world where
  "unreadableWorld = exampleWorld\<lparr>tree := (tree exampleWorld)(''components/Hero.tsx'' \<mapsto> NoAccess)\<rparr>"

definition pageFile :: FileToTransform where
  "pageFile = \<lparr>path = ''app/page.tsx'', type = Component,
               transformations = [''make-params-async'']\<rparr>"

definition heroFile :: FileToTransform where
  "heroFile = \<lparr>path = ''components/Hero.tsx'', type = Component,
               transformations = [''update-next-image'']\<rparr>"

definition cacheFile :: FileToTransform where
  "cacheFile = \<lparr>path = ''lib/cache.ts'', type = Other,
                transformations = [''update-revalidate-tag'']\<rparr>"

definition utilFile :: FileToTransform where
  "utilFile = \<lparr>path = ''lib/util.ts'', type = Other, transformations = []\<rparr>"

text \<open>The reports the scanner builds for the example project, on the recent and on the
  old runtime.\<close>

definition exampleAnalysis :: ProjectAnalysis where
  "exampleAnalysis =
     \<lparr>isCompatible = True, currentVersion = ''^15.1.0'',
      filesToTransform = [pageFile, heroFile, cacheFile], issues = [], recommendations = [],
      complexity = Low, estimatedTime = ''5-15 minutes''\<rparr>"

definition oldNodeAnalysis :: ProjectAnalysis where
  "oldNodeAnalysis =
     exampleAnalysis
       \<lparr>isCompatible := False,
        issues := [''Node.js v18.17.0 is not supported. Next.js 16 requires Node.js 20.9+'']\<rparr>"

text \<open>The example project after one backup has been taken.\<close>

definition backedUpWorld :: world where
  "backedUpWorld =
     exampleWorld
       \<lparr>metadata := Some [\<lparr>backup_id = ''backup-1'', timestamp = ''2025-01-01T00:00:00.000Z'',
                            description = ''Pre-migration backup'', gitCommit = Some ''abc1234'',
                            filesBackup = Some ''.nextjs16-migrator/backups/backup-1''\<rparr>],
        backupDirs := [''.nextjs16-migrator/backups/backup-1''
                         \<mapsto> [(''package.json'', RegularFile ''{}'')]]\<rparr>"

text \<open>What \<^verbatim>\<open>migrate\<close> returns on the example project.\<close>

definition exampleResult :: MigrationResult where
  "exampleResult =
     \<lparr>successful = 0, failed = 3, changes = [],
      errors = [\<lparr>error_file = ''app/page.tsx'',
                 error_message = ''Transformation make-params-async failed: j is not a function''\<rparr>,
                \<lparr>error_file = ''components/Hero.tsx'',
                 error_message = ''Transformation update-next-image failed: j is not a function''\<rparr>,
                \<lparr>error_file = ''lib/cache.ts'',
                 error_message =
                   ''Transformation update-revalidate-tag failed: j is not a function''\<rparr>]\<rparr>"

definition exampleOptions :: MigrateOptions where
  "exampleOptions = \<lparr>dryRun = False, yes = True, backup = None, performance = False,
                      batch = False\<rparr>"


section \<open>Properties\<close>

subsection \<open>Complexity tiers\<close>

text \<open>
  Claim C8.  The complexity tier and the time estimate written by \<open>calculateComplexity\<close>
  depend only on the number of files and the number of issues, through the thresholds
  of the specification: more than 50 files or more than 5 issues is high, otherwise more
  than 20 files or more than 2 issues is medium, otherwise low; each tier has one fixed
  time-range string.  In particular 51 files are high, 21 files (with at most 5 issues)
  are medium, and 5 files with no issue are low.
\<close>

theorem calculateComplexity_thresholds:
  "complexity (calculateComplexity a)
     = specTier (length (filesToTransform a)) (length (issues a))
   \<and> estimatedTime (calculateComplexity a) = specTime (complexity (calculateComplexity a))
   \<and> specTier 51 n = High
   \<and> specTier 21 (min n 5) = Medium
   \<and> specTier 5 0 = Low"
  by (simp add: calculateComplexity_def specTier_def specTime_def Let_def)

subsection \<open>The example project, evaluated\<close>

lemma detect_page: "detectTransformations ''app/page.tsx'' pageSource = [''make-params-async'']"
  by (simp add: detectTransformations_def pushIf_def pageSource_def)

lemma detect_hero: "detectTransformations ''components/Hero.tsx'' heroSource = [''update-next-image'']"
  by (simp add: detectTransformations_def pushIf_def heroSource_def)

lemma detect_util: "detectTransformations ''lib/util.ts'' utilSource = []"
  by (simp add: detectTransformations_def pushIf_def utilSource_def)

lemma detect_cache: "detectTransformations ''lib/cache.ts'' cacheSource = [''update-revalidate-tag'']"
  by (simp add: detectTransformations_def pushIf_def cacheSource_def)

lemma ftype_page: "getFileType ''app/page.tsx'' = Component"
  by (simp add: getFileType_def)
lemma ftype_hero: "getFileType ''components/Hero.tsx'' = Component"
  by (simp add: getFileType_def)
lemma ftype_cache: "getFileType ''lib/cache.ts'' = Other"
  by (simp add: getFileType_def)
lemma ftype_util: "getFileType ''lib/util.ts'' = Other"
  by (simp add: getFileType_def)

lemma analyzeFile_page: "analyzeFile exampleWorld ''app/page.tsx'' = Inr pageFile"
  by (simp add: analyzeFile_def readFile_def exampleWorld_def analyzeContent_def detect_page
      ftype_page pageFile_def)

lemma analyzeFile_hero: "analyzeFile exampleWorld ''components/Hero.tsx'' = Inr heroFile"
  by (simp add: analyzeFile_def readFile_def exampleWorld_def analyzeContent_def detect_hero
      ftype_hero heroFile_def)

lemma analyzeFile_cache: "analyzeFile exampleWorld ''lib/cache.ts'' = Inr cacheFile"
  by (simp add: analyzeFile_def readFile_def exampleWorld_def analyzeContent_def detect_cache
      ftype_cache cacheFile_def)

lemma analyzeFile_util: "analyzeFile exampleWorld ''lib/util.ts'' = Inr utilFile"
  by (simp add: analyzeFile_def readFile_def exampleWorld_def analyzeContent_def detect_util
      ftype_util utilFile_def)

lemma glob_example:
  "glob exampleEnv p = (if p = ''lib/**/*.ts'' then [''lib/cache.ts'', ''lib/util.ts'']
                  else if p = ''components/**/*.tsx'' then [''components/Hero.tsx'']
                  else if p = ''app/**/*.tsx'' then [''app/page.tsx'']
                  else [])"
  by (simp add: exampleEnv_def)

lemma find_example:
  "findFilesToTransform exampleEnv exampleWorld a
   = Inr (a\<lparr>filesToTransform := filesToTransform a @ [pageFile, heroFile, cacheFile]\<rparr>)"
  by (simp add: findFilesToTransform_def patterns_def glob_example analyzeFile_page
      analyzeFile_hero analyzeFile_cache analyzeFile_util pageFile_def heroFile_def
      cacheFile_def utilFile_def)


lemma parseVersion_example: "major (parseVersion ''^15.1.0'') = 15"
  by (simp add: parseVersion_def matchVersionAt_def isDigit_def digitsToNat_def digitValue_def)

lemma analyzePackageJson_example:
  "analyzePackageJson e exampleWorld initialAnalysis = X \<Longrightarrow> parsePackageJson e = parsePackageJson exampleEnv \<Longrightarrow>
   X = Inr (initialAnalysis\<lparr>currentVersion := ''^15.1.0''\<rparr>)"
  by (simp add: analyzePackageJson_def pathExists_def readFile_def exampleWorld_def exampleEnv_def
      dep_def orElse_def parseVersion_example problematicDeps_def Let_def)

lemma checkCompatibility_example:
  "checkCompatibility exampleEnv exampleWorld a = Inr a"
  by (simp add: checkCompatibility_def glob_example exampleEnv_def parseInt_def isDigit_def
      digitsToNat_def digitValue_def Let_def)

lemma checkCompatibility_oldNode:
  "checkCompatibility oldNodeEnv exampleWorld a
   = Inr (a\<lparr>issues := issues a
               @ [''Node.js v18.17.0 is not supported. Next.js 16 requires Node.js 20.9+''],
             isCompatible := False\<rparr>)"
  by (simp add: checkCompatibility_def oldNodeEnv_def exampleEnv_def parseInt_def isDigit_def
      digitsToNat_def digitValue_def Let_def)

lemma scanPatterns_glob:
  "glob e = glob e' \<Longrightarrow> scanPatterns e w ps a = scanPatterns e' w ps a"
  by (induction ps arbitrary: a) (auto split: sum.splits)

lemma find_oldNode:
  "findFilesToTransform oldNodeEnv exampleWorld a = findFilesToTransform exampleEnv exampleWorld a"
  unfolding findFilesToTransform_def
  by (rule scanPatterns_glob) (simp add: oldNodeEnv_def)

lemma analyze_example: "analyze exampleEnv exampleWorld = Inr exampleAnalysis"
  using analyzePackageJson_example [of exampleEnv, OF refl refl]
  by (simp add: analyze_def find_example checkCompatibility_example calculateComplexity_def
      initialAnalysis_def exampleAnalysis_def)

lemma analyze_oldNode: "analyze oldNodeEnv exampleWorld = Inr oldNodeAnalysis"
proof -
  have "parsePackageJson oldNodeEnv = parsePackageJson exampleEnv"
    by (simp add: oldNodeEnv_def)
  from analyzePackageJson_example [of oldNodeEnv, OF refl this] show ?thesis
    by (simp add: analyze_def find_oldNode find_example checkCompatibility_oldNode
        calculateComplexity_def initialAnalysis_def exampleAnalysis_def oldNodeAnalysis_def)
qed

subsection \<open>The transform list of a report\<close>

lemma mem_pushIf: "x \<in> set (pushIf b tag) \<longleftrightarrow> b \<and> x = tag"
  by (auto simp: pushIf_def)

lemma detect_never_cache_life:
  "''add-cache-life-profile'' \<notin> set (detectTransformations filePath content)"
  by (simp add: detectTransformations_def mem_pushIf)

lemma analyzeFiles_tags:
  "analyzeFiles w fs a = Inr a' \<Longrightarrow>
   \<forall>f\<in>set (filesToTransform a). P (transformations f) \<Longrightarrow>
   (\<And>p c. P (detectTransformations p c)) \<Longrightarrow>
   \<forall>f\<in>set (filesToTransform a'). P (transformations f)"
proof (induction fs arbitrary: a)
  case Nil
  then show ?case by simp
next
  case (Cons x xs)
  from Cons.prems(1) obtain fa where fa: "analyzeFile w x = Inr fa"
    by (cases "analyzeFile w x") simp_all
  define a1 where "a1 = (if length (transformations fa) > 0
             then a\<lparr>filesToTransform := filesToTransform a @ [fa]\<rparr> else a)"
  have r: "analyzeFiles w xs a1 = Inr a'"
    using Cons.prems(1) fa by (simp add: a1_def)
  obtain c where "fa = analyzeContent x c"
    using fa by (cases "readFile w x") (auto simp: analyzeFile_def)
  then have "P (transformations fa)"
    using Cons.prems(3) by (simp add: analyzeContent_def)
  with Cons.prems(2) have inv: "\<forall>f\<in>set (filesToTransform a1). P (transformations f)"
    by (simp add: a1_def)
  show ?case by (rule Cons.IH [OF r inv Cons.prems(3)])
qed

lemma scanPatterns_tags:
  "scanPatterns e w ps a = Inr a' \<Longrightarrow>
   \<forall>f\<in>set (filesToTransform a). P (transformations f) \<Longrightarrow>
   (\<And>p c. P (detectTransformations p c)) \<Longrightarrow>
   \<forall>f\<in>set (filesToTransform a'). P (transformations f)"
proof (induction ps arbitrary: a)
  case Nil
  then show ?case by simp
next
  case (Cons p ps)
  from Cons.prems(1) obtain a1 where a1: "analyzeFiles w (glob e p) a = Inr a1"
    and r: "scanPatterns e w ps a1 = Inr a'"
    by (auto split: sum.splits)
  from analyzeFiles_tags [OF a1 Cons.prems(2)] Cons.prems(3)
  have "\<forall>f\<in>set (filesToTransform a1). P (transformations f)" by blast
  from Cons.IH [OF r this] Cons.prems(3) show ?case by blast
qed

lemma files_checkDeps: "filesToTransform (checkDeps pkg ds a) = filesToTransform a"
  by (induction ds arbitrary: a) auto

lemma files_analyzePackageJson:
  assumes "analyzePackageJson e w a = Inr a'"
  shows "filesToTransform a' = filesToTransform a"
proof (cases "pathExists w ''package.json''")
  case False
  with assms show ?thesis by (auto simp: analyzePackageJson_def)
next
  case True
  with assms obtain body pkg where
    "readFile w ''package.json'' = Inr body" and p: "parsePackageJson e body = Inr pkg"
    by (auto simp: analyzePackageJson_def split: sum.splits)
  with assms True have "filesToTransform a' = filesToTransform a"
    by (cases "orElse (dep (dependencies pkg) ''next'') (dep (devDependencies pkg) ''next'')")
       (auto simp: analyzePackageJson_def Let_def files_checkDeps)
  then show ?thesis .
qed

lemma files_checkConfigFiles:
  "checkConfigFiles w fs a = Inr a' \<Longrightarrow> filesToTransform a' = filesToTransform a"
  by (induction fs arbitrary: a) (auto split: sum.splits if_splits)

lemma files_checkCompatibility:
  assumes "checkCompatibility e w a = Inr a'"
  shows "filesToTransform a' = filesToTransform a"
proof -
  define a1 where "a1 = (if length (glob e ''**/*.amp.*'') > 0
                then a\<lparr>issues := issues a @ [''AMP support has been removed in Next.js 16''],
                        recommendations := recommendations a
                           @ [''Remove AMP files and configurations'']\<rparr>
                else a)"
  have f1: "filesToTransform a1 = filesToTransform a" by (simp add: a1_def)
  from assms obtain a2 where c: "checkConfigFiles w (glob e ''next.config.*'') a1 = Inr a2"
    by (auto simp: checkCompatibility_def Let_def a1_def split: sum.splits)
  have f2: "filesToTransform a2 = filesToTransform a"
    using files_checkConfigFiles [OF c] f1 by simp
  from assms c have "filesToTransform a' = filesToTransform a2"
    by (cases "parseInt (takeWhile (\<lambda>c. c \<noteq> CHR ''.'') (drop 1 (nodeVersion e)))")
       (auto simp: checkCompatibility_def Let_def a1_def split: if_splits)
  with f2 show ?thesis by simp
qed

lemma files_calculateComplexity:
  "filesToTransform (calculateComplexity a) = filesToTransform a"
  by (simp add: calculateComplexity_def Let_def)

lemma analyze_tags:
  assumes "analyze e w = Inr a" and "\<And>p c. P (detectTransformations p c)"
  shows "\<forall>f\<in>set (filesToTransform a). P (transformations f)"
proof -
  from assms(1) obtain a1 a2 a3 where
    s1: "analyzePackageJson e w initialAnalysis = Inr a1" and
    s2: "findFilesToTransform e w a1 = Inr a2" and
    s3: "checkCompatibility e w a2 = Inr a3" and
    s4: "a = calculateComplexity a3"
    by (auto simp: analyze_def split: sum.splits)
  have "filesToTransform a1 = []"
    using files_analyzePackageJson [OF s1] by (simp add: initialAnalysis_def)
  then have "\<forall>f\<in>set (filesToTransform a1). P (transformations f)" by simp
  from scanPatterns_tags [OF s2 [unfolded findFilesToTransform_def] this] assms(2)
  have "\<forall>f\<in>set (filesToTransform a2). P (transformations f)" by blast
  then show ?thesis
    using files_checkCompatibility [OF s3] s4 by (simp add: files_calculateComplexity)
qed

text \<open>
  Claim C9.  For every path and every content the scanner does not produce the tag
  \<open>add-cache-life-profile\<close>: its test asks for a text that both contains and does not
  contain \<^verbatim>\<open>revalidateTag(\<close>.  Hence no file of a report that \<open>analyze\<close> returns
  carries the tag, and \<open>migrate\<close>, which applies only the tags of that report, never
  invokes the rule; the rule itself returns its input unchanged.
\<close>

theorem add_cache_life_profile_never_detected:
  "''add-cache-life-profile'' \<notin> set (detectTransformations filePath content)
   \<and> (analyze e w = Inr a \<longrightarrow>
        (\<forall>f\<in>set (filesToTransform a). ''add-cache-life-profile'' \<notin> set (transformations f)))
   \<and> addCacheLifeProfile api source = Inr source"
proof -
  have "analyze e w = Inr a \<Longrightarrow>
        \<forall>f\<in>set (filesToTransform a). ''add-cache-life-profile'' \<notin> set (transformations f)"
    by (rule analyze_tags [where P = "\<lambda>ts. ''add-cache-life-profile'' \<notin> set ts"])
       (simp_all add: detect_never_cache_life)
  then show ?thesis
    by (simp add: detect_never_cache_life addCacheLifeProfile_def)
qed

theorem add_cache_life_profile_never_detected_witness:
  "analyze exampleEnv exampleWorld = Inr exampleAnalysis
   \<and> filesToTransform exampleAnalysis = [pageFile, heroFile, cacheFile]
   \<and> ''add-cache-life-profile'' \<notin> set (transformations pageFile)
   \<and> ''add-cache-life-profile'' \<notin> set (transformations heroFile)
   \<and> ''add-cache-life-profile'' \<notin> set (transformations cacheFile)"
  using add_cache_life_profile_never_detected [of "''x''" "''y''" exampleEnv exampleWorld exampleAnalysis]
        analyze_example
  by (simp add: exampleAnalysis_def)

subsection \<open>Unreadable files\<close>

lemma analyzeFiles_unreadable:
  "f \<in> set fs \<Longrightarrow> readFile w f = Inl err \<Longrightarrow> \<exists>err'. analyzeFiles w fs a = Inl err'"
proof (induction fs arbitrary: a)
  case Nil
  then show ?case by simp
next
  case (Cons x xs)
  show ?case
  proof (cases "analyzeFile w x")
    case (Inl e1)
    then show ?thesis by simp
  next
    case (Inr fa)
    then have "x \<noteq> f" using Cons.prems(2) by (auto simp: analyzeFile_def)
    with Cons.prems have "f \<in> set xs" by simp
    from Cons.IH [OF this Cons.prems(2)] Inr show ?thesis by simp
  qed
qed

lemma scanPatterns_unreadable:
  "p \<in> set ps \<Longrightarrow> f \<in> set (glob e p) \<Longrightarrow> readFile w f = Inl err \<Longrightarrow>
   \<exists>err'. scanPatterns e w ps a = Inl err'"
proof (induction ps arbitrary: a)
  case Nil
  then show ?case by simp
next
  case (Cons q qs)
  show ?case
  proof (cases "analyzeFiles w (glob e q) a")
    case (Inl e1)
    then show ?thesis by simp
  next
    case (Inr a1)
    then have "q \<noteq> p"
      using analyzeFiles_unreadable [OF Cons.prems(2,3), of a] by auto
    with Cons.prems have "p \<in> set qs" by simp
    from Cons.IH [OF this Cons.prems(2,3)] Inr show ?thesis by simp
  qed
qed

text \<open>
  Claim C6, as amended.  During analysis an individual candidate file that cannot be read
  is fatal to the scan: the read is not guarded, its error propagates out of \<open>analyze\<close>,
  and no report is returned.
\<close>

theorem analyze_unreadable_file_is_fatal:
  assumes "p \<in> set patterns" and "f \<in> set (glob e p)" and "readFile w f = Inl err"
  shows "\<exists>err'. analyze e w = Inl err'"
proof (cases "analyzePackageJson e w initialAnalysis")
  case (Inl e1)
  then show ?thesis by (simp add: analyze_def)
next
  case (Inr a1)
  from scanPatterns_unreadable [OF assms, of a1] obtain err' where
    "findFilesToTransform e w a1 = Inl err'" by (auto simp: findFilesToTransform_def)
  with Inr show ?thesis by (simp add: analyze_def)
qed

lemma find_unreadable:
  "findFilesToTransform exampleEnv unreadableWorld a = Inl (FileAccessError ''components/Hero.tsx'')"
  by (simp add: findFilesToTransform_def patterns_def glob_example analyzeFile_def readFile_def
      unreadableWorld_def exampleWorld_def)

text \<open>
  Claim C6, as stated, fails on the example project once one candidate file is
  unreadable: the scan does not skip the file and return a report on the others, it throws.
\<close>

theorem analyze_unreadable_file_counterexample:
  "analyze exampleEnv unreadableWorld = Inl (FileAccessError ''components/Hero.tsx'')"
proof -
  have "analyzePackageJson exampleEnv unreadableWorld initialAnalysis
        = Inr (initialAnalysis\<lparr>currentVersion := ''^15.1.0''\<rparr>)"
    by (simp add: analyzePackageJson_def pathExists_def readFile_def unreadableWorld_def
        exampleWorld_def exampleEnv_def dep_def orElse_def parseVersion_example
        problematicDeps_def Let_def)
  then show ?thesis by (simp add: analyze_def find_unreadable)
qed

theorem analyze_unreadable_file_is_fatal_witness:
  "''components/**/*.tsx'' \<in> set patterns
   \<and> ''components/Hero.tsx'' \<in> set (glob exampleEnv ''components/**/*.tsx'')
   \<and> readFile unreadableWorld ''components/Hero.tsx'' = Inl (FileAccessError ''components/Hero.tsx'')
   \<and> (\<exists>err'. analyze exampleEnv unreadableWorld = Inl err')"
proof -
  have 1: "''components/**/*.tsx'' \<in> set patterns" by (simp add: patterns_def)
  have 2: "''components/Hero.tsx'' \<in> set (glob exampleEnv ''components/**/*.tsx'')"
    by (simp add: glob_example)
  have 3: "readFile unreadableWorld ''components/Hero.tsx''
           = Inl (FileAccessError ''components/Hero.tsx'')"
    by (simp add: readFile_def unreadableWorld_def)
  from analyze_unreadable_file_is_fatal [OF 1 2 3] 1 2 3 show ?thesis by blast
qed

subsection \<open>The compatibility gate\<close>

text \<open>
  Claim C1.  When the report is not compatible, the migrate command returns at once with
  the list of issues and the world is the one it started from: no backup directory or
  catalog entry was created, no version-control command was issued, no file of the tree
  was written, and the rewrite engine was not run.
\<close>

theorem migrateCommand_refuses_incompatible:
  assumes "analyze e w = Inr a" and "\<not> isCompatible a"
  shows "migrateCommand e now options w = (Inr (NotCompatible (issues a)), w)"
  using assms by (simp add: migrateCommand_def)

theorem migrateCommand_refuses_incompatible_witness:
  "analyze oldNodeEnv exampleWorld = Inr oldNodeAnalysis
   \<and> \<not> isCompatible oldNodeAnalysis
   \<and> migrateCommand oldNodeEnv 1700000000000 exampleOptions exampleWorld
       = (Inr (NotCompatible
                 [''Node.js v18.17.0 is not supported. Next.js 16 requires Node.js 20.9+'']),
          exampleWorld)"
proof -
  have c: "\<not> isCompatible oldNodeAnalysis" by (simp add: oldNodeAnalysis_def)
  from migrateCommand_refuses_incompatible [OF analyze_oldNode c, of 1700000000000 exampleOptions]
  show ?thesis using analyze_oldNode c by (simp add: oldNodeAnalysis_def)
qed

subsection \<open>The backup catalog\<close>

lemma listBackups_save: "listBackups (saveBackupMetadata b w) = take 10 (b # listBackups w)"
  by (simp add: listBackups_def saveBackupMetadata_def Let_def)

lemma metadata_createGitBackup: "metadata (snd (createGitBackup e i w)) = metadata w"
  by (simp add: createGitBackup_def gitRun_def Let_def split: sum.splits bool.splits prod.splits)

lemma metadata_ensureDir: "metadata (ensureDir d w) = metadata w"
  by (simp add: ensureDir_def split: option.splits)

lemma metadata_copyIntoBackup: "metadata (snd (copyIntoBackup p fs w)) = metadata w"
  by (induction p fs w rule: copyIntoBackup.induct)
     (auto split: option.splits fsnode.splits)

lemma metadata_createFilesBackup: "metadata (snd (createFilesBackup i w)) = metadata w"
  using metadata_copyIntoBackup [of "joinPath backupDir i" filesToBackup "ensureDir (joinPath backupDir i) w"]
  by (auto simp: createFilesBackup_def Let_def metadata_ensureDir split: prod.splits option.splits)

lemma createBackup_catalog:
  assumes "createBackup e now w = (Inr bid, w')"
  shows "bid = ''backup-'' @ showNat now
       \<and> (\<exists>b. backup_id b = bid \<and> listBackups w' = take 10 (b # listBackups w))"
proof -
  obtain commit w1 where g: "createGitBackup e (''backup-'' @ showNat now) (ensureDir backupDir w) = (commit, w1)"
    by (cases "createGitBackup e (''backup-'' @ showNat now) (ensureDir backupDir w)")
  obtain r w2 where f: "createFilesBackup (''backup-'' @ showNat now) w1 = (r, w2)"
    by (cases "createFilesBackup (''backup-'' @ showNat now) w1")
  have m1: "metadata w1 = metadata w"
    using metadata_createGitBackup [of e "''backup-'' @ showNat now" "ensureDir backupDir w"] g
    by (simp add: metadata_ensureDir)
  have m2: "metadata w2 = metadata w"
    using metadata_createFilesBackup [of "''backup-'' @ showNat now" w1] f m1 by simp
  have l2: "listBackups w2 = listBackups w"
    using m2 by (simp add: listBackups_def)
  from assms g f show ?thesis
    by (cases r) (auto simp: createBackup_def Let_def listBackups_save l2)
qed

lemma take_append_take: "take n (xs @ take n ys) = take n (xs @ ys)"
  by (simp add: min_def)

lemma createBackups_catalog:
  "createBackups e ts w = Some (ids, w') \<Longrightarrow>
     ids = map (\<lambda>t. ''backup-'' @ showNat t) ts
     \<and> (\<exists>bs. map backup_id bs = ids
              \<and> take 10 (listBackups w') = take 10 (rev bs @ listBackups w))"
proof (induction ts arbitrary: w ids)
  case Nil
  then show ?case by simp
next
  case (Cons t ts)
  from Cons.prems obtain bid w1 ids' where
    c: "createBackup e t w = (Inr bid, w1)" and
    r: "createBackups e ts w1 = Some (ids', w')" and
    i: "ids = bid # ids'"
    by (auto split: prod.splits sum.splits option.splits)
  from createBackup_catalog [OF c] obtain b where
    b: "bid = ''backup-'' @ showNat t" "backup_id b = bid"
       "listBackups w1 = take 10 (b # listBackups w)" by blast
  from Cons.IH [OF r] obtain bs where
    bs: "ids' = map (\<lambda>t. ''backup-'' @ showNat t) ts" "map backup_id bs = ids'"
        "take 10 (listBackups w') = take 10 (rev bs @ listBackups w1)" by blast
  have "take 10 (listBackups w') = take 10 (rev (b # bs) @ listBackups w)"
    using bs(3) b(3) take_append_take [of 10 "rev bs" "b # listBackups w"] by simp
  moreover have "map backup_id (b # bs) = ids" using b bs i by simp
  moreover have "ids = map (\<lambda>t. ''backup-'' @ showNat t) (t # ts)" using b bs i by simp
  ultimately show ?case by blast
qed

lemma createBackups_bounded:
  "createBackups e ts w = Some (ids, w') \<Longrightarrow> ts \<noteq> [] \<Longrightarrow> length (listBackups w') \<le> 10"
proof (induction ts arbitrary: w ids)
  case Nil
  then show ?case by simp
next
  case (Cons t ts)
  from Cons.prems obtain bid w1 ids' where
    c: "createBackup e t w = (Inr bid, w1)" and
    r: "createBackups e ts w1 = Some (ids', w')"
    by (auto split: prod.splits sum.splits option.splits)
  show ?case
  proof (cases ts)
    case Nil
    with r have "w' = w1" by simp
    with createBackup_catalog [OF c] show ?thesis by auto
  next
    case (Cons u us)
    with Cons.IH [OF r] show ?thesis by simp
  qed
qed

text \<open>A backup is created whenever none of the files on the copy list is unreadable, and
  it leaves the project tree as it was.\<close>

lemma tree_createGitBackup: "tree (snd (createGitBackup e i w)) = tree w"
  by (simp add: createGitBackup_def gitRun_def Let_def split: sum.splits bool.splits prod.splits)

lemma tree_ensureDir: "tree (ensureDir d w) = tree w"
  by (simp add: ensureDir_def split: option.splits)

lemma copyIntoBackup_returns:
  "\<forall>f\<in>set fs. tree w f \<noteq> Some NoAccess \<Longrightarrow>
     fst (copyIntoBackup p fs w) = None \<and> tree (snd (copyIntoBackup p fs w)) = tree w"
  by (induction p fs w rule: copyIntoBackup.induct)
     (auto simp: pathExists_def split: option.splits fsnode.splits)

lemma createBackup_returns:
  assumes "\<forall>f\<in>set filesToBackup. tree w f \<noteq> Some NoAccess"
  shows "\<exists>w'. createBackup e now w = (Inr (''backup-'' @ showNat now), w') \<and> tree w' = tree w"
proof -
  let ?i = "''backup-'' @ showNat now"
  obtain commit w1 where g: "createGitBackup e ?i (ensureDir backupDir w) = (commit, w1)"
    by (cases "createGitBackup e ?i (ensureDir backupDir w)")
  have t1: "tree w1 = tree w"
    using tree_createGitBackup [of e ?i "ensureDir backupDir w"] g by (simp add: tree_ensureDir)
  let ?w1 = "ensureDir (joinPath backupDir ?i) w1"
  have "\<forall>f\<in>set filesToBackup. tree ?w1 f \<noteq> Some NoAccess"
    using assms t1 by (simp add: tree_ensureDir)
  from copyIntoBackup_returns [OF this, of "joinPath backupDir ?i"]
  obtain w2 where c: "copyIntoBackup (joinPath backupDir ?i) filesToBackup ?w1 = (None, w2)"
    and t2: "tree w2 = tree w"
    using t1 by (cases "copyIntoBackup (joinPath backupDir ?i) filesToBackup ?w1")
                (auto simp: tree_ensureDir)
  show ?thesis
    using g c t2 by (simp add: createBackup_def createFilesBackup_def Let_def saveBackupMetadata_def)
qed

lemma createBackups_returns:
  "\<forall>f\<in>set filesToBackup. tree w f \<noteq> Some NoAccess \<Longrightarrow>
     \<exists>ids w'. createBackups e ts w = Some (ids, w') \<and> tree w' = tree w"
proof (induction ts arbitrary: w)
  case Nil
  then show ?case by simp
next
  case (Cons t ts)
  from createBackup_returns [OF Cons.prems, of e t] obtain w1 where
    c: "createBackup e t w = (Inr (''backup-'' @ showNat t), w1)" and t1: "tree w1 = tree w"
    by blast
  from Cons.prems t1 have "\<forall>f\<in>set filesToBackup. tree w1 f \<noteq> Some NoAccess" by simp
  from Cons.IH [OF this] obtain ids w' where
    "createBackups e ts w1 = Some (ids, w')" "tree w' = tree w1" by blast
  with c t1 show ?case by simp
qed

text \<open>
  Claim C3.  After eleven \<open>createBackup\<close> calls that returned, whatever the catalog held
  before, \<open>listBackups\<close> returns exactly ten entries; they are the ten most recently
  created backups, newest first (the ids in reverse call order without the oldest).
  Every insertion puts the new record in front of the entries already there, in their
  order, and keeps the first ten.
\<close>

theorem catalog_after_eleven_backups:
  assumes "createBackups e ts w = Some (ids, w')" and "length ts = 11"
  shows "length (listBackups w') = 10
       \<and> map backup_id (listBackups w') = take 10 (rev ids)
       \<and> ids = map (\<lambda>t. ''backup-'' @ showNat t) ts
       \<and> (\<forall>b v. listBackups (saveBackupMetadata b v) = take 10 (b # listBackups v))"
proof -
  from createBackups_catalog [OF assms(1)] obtain bs where
    bs: "ids = map (\<lambda>t. ''backup-'' @ showNat t) ts" "map backup_id bs = ids"
        "take 10 (listBackups w') = take 10 (rev bs @ listBackups w)" by blast
  have len: "length bs = 11" using bs(1,2) assms(2)
    by (metis length_map)
  have "ts \<noteq> []" using assms(2) by auto
  from createBackups_bounded [OF assms(1) this]
  have "take 10 (listBackups w') = listBackups w'" by simp
  with bs(3) len have l: "listBackups w' = take 10 (rev bs)" by simp
  have m: "map backup_id (take 10 (rev bs)) = take 10 (rev (map backup_id bs))"
    by (simp add: take_map rev_map)
  have "length (listBackups w') = 10" using l len by simp
  moreover have "map backup_id (listBackups w') = take 10 (rev ids)"
    using l m bs(2) by simp
  ultimately show ?thesis using bs(1) by (simp add: listBackups_save)
qed

theorem catalog_after_eleven_backups_witness:
  "\<exists>ids w'. createBackups exampleEnv [1, 2, 3, 4, 5, 6, 7, 8, 9, 10, 11] exampleWorld = Some (ids, w')
     \<and> length [1, 2, 3, 4, 5, 6, 7, 8, 9, 10, 11 :: nat] = 11
     \<and> length (listBackups w') = 10
     \<and> map backup_id (listBackups w') = take 10 (rev ids)
     \<and> ids = map (\<lambda>t. ''backup-'' @ showNat t) [1, 2, 3, 4, 5, 6, 7, 8, 9, 10, 11]"
proof -
  have "\<forall>f\<in>set filesToBackup. tree exampleWorld f \<noteq> Some NoAccess"
    by (simp add: exampleWorld_def)
  from createBackups_returns [OF this, of exampleEnv "[1, 2, 3, 4, 5, 6, 7, 8, 9, 10, 11]"]
  obtain ids w' where
    r: "createBackups exampleEnv [1, 2, 3, 4, 5, 6, 7, 8, 9, 10, 11] exampleWorld = Some (ids, w')"
    by blast
  have l: "length [1, 2, 3, 4, 5, 6, 7, 8, 9, 10, 11 :: nat] = 11" by simp
  from catalog_after_eleven_backups [OF r l] r l show ?thesis by blast
qed

subsection \<open>Restoring an unknown backup\<close>

text \<open>
  Claim C5.  For an id that no catalog entry carries, \<open>restoreBackup\<close> throws the error
  whose message is \<^verbatim>\<open>Backup <id> not found\<close>, and the world is the one it started from:
  no reset was issued to version control and nothing was copied onto the project root.
\<close>

theorem restoreBackup_unknown_id:
  assumes "backupId \<notin> backup_id ` set (listBackups w)"
  shows "restoreBackup e backupId w = (Inl (BackupNotFound backupId), w)
       \<and> message (BackupNotFound backupId) = ''Backup '' @ backupId @ '' not found''"
proof -
  have "find (\<lambda>b. backup_id b = backupId) (listBackups w) = None"
    using assms by (auto simp: find_None_iff)
  then show ?thesis by (simp add: restoreBackup_def)
qed

theorem restoreBackup_unknown_id_witness:
  "''backup-7'' \<notin> backup_id ` set (listBackups backedUpWorld)
   \<and> restoreBackup exampleEnv ''backup-7'' backedUpWorld
       = (Inl (BackupNotFound ''backup-7''), backedUpWorld)
   \<and> message (BackupNotFound ''backup-7'') = ''Backup backup-7 not found''"
  using restoreBackup_unknown_id [of "''backup-7''" backedUpWorld exampleEnv]
  by (simp add: backedUpWorld_def listBackups_def)

subsection \<open>One file is rewritten atomically\<close>

lemma applyTransformations_append:
  "applyTransformations e p (ts1 @ ts2) src chs =
     (case applyTransformations e p ts1 src chs of
        Inl err \<Rightarrow> Inl err
      | Inr (s, c) \<Rightarrow> applyTransformations e p ts2 s c)"
  by (induction ts1 arbitrary: src chs) (auto split: option.splits sum.splits)

lemma applyTransformations_changes:
  "applyTransformations e p ts src chs = Inr (out, chs') \<Longrightarrow>
   chs' = chs @ map (\<lambda>t. \<lparr>change_file = p, description = getTransformationDescription t,
                           change_type = Transformation\<rparr>)
                    (filter (\<lambda>t. transformers e t \<noteq> None) ts)"
proof (induction ts arbitrary: src chs)
  case Nil
  then show ?case by simp
next
  case (Cons t ts)
  show ?case
  proof (cases "transformers e t")
    case None
    with Cons.prems have "applyTransformations e p ts src chs = Inr (out, chs')" by simp
    from Cons.IH [OF this] None show ?thesis by simp
  next
    case (Some rule)
    with Cons.prems obtain s where
      r: "applyTransformations e p ts s
            (chs @ [\<lparr>change_file = p, description = getTransformationDescription t,
                      change_type = Transformation\<rparr>]) = Inr (out, chs')"
      by (cases "rule src") simp_all
    from Cons.IH [OF r] Some show ?thesis by simp
  qed
qed

lemma readFile_Inr_exists: "readFile w p = Inr c \<Longrightarrow> pathExists w p"
  by (auto simp: readFile_def pathExists_def split: option.splits)

lemma transformFile_throw:
  "readFile w (path f) = Inr src \<Longrightarrow>
   applyTransformations e (path f) (transformations f) src [] = Inl err \<Longrightarrow>
   transformFile e f w = (Inl err, w)"
  by (simp add: transformFile_def readFile_Inr_exists)

lemma transformFile_world:
  assumes "transformFile e f w = (r, w')"
  shows "w' = w \<or>
         (\<exists>src out chs. readFile w (path f) = Inr src
            \<and> applyTransformations e (path f) (transformations f) src [] = Inr (out, chs)
            \<and> out \<noteq> src \<and> r = Inr chs
            \<and> w' = w\<lparr>tree := (tree w)(path f \<mapsto> RegularFile out)\<rparr>)"
proof (cases "pathExists w (path f)")
  case False
  with assms show ?thesis by (simp add: transformFile_def)
next
  case True
  show ?thesis
  proof (cases "readFile w (path f)")
    case (Inl err)
    with assms True show ?thesis by (simp add: transformFile_def)
  next
    case (Inr src)
    show ?thesis
    proof (cases "applyTransformations e (path f) (transformations f) src []")
      case (Inl err)
      with assms True Inr show ?thesis by (simp add: transformFile_def)
    next
      case r: (Inr res)
      obtain out chs where res: "res = (out, chs)" by (cases res)
      show ?thesis
      proof (cases "out = src")
        case True
        with assms \<open>pathExists w (path f)\<close> Inr r res show ?thesis
          by (simp add: transformFile_def)
      next
        case False
        show ?thesis
        proof (cases "writeFile (path f) out w")
          case (Inl err)
          with assms \<open>pathExists w (path f)\<close> Inr r res False show ?thesis
            by (simp add: transformFile_def)
        next
          case wr: (Inr w2)
          then have "w2 = w\<lparr>tree := (tree w)(path f \<mapsto> RegularFile out)\<rparr>"
            by (auto simp: writeFile_def split: option.splits fsnode.splits)
          with assms \<open>pathExists w (path f)\<close> Inr r res False wr show ?thesis
            by (auto simp: transformFile_def)
        qed
      qed
    qed
  qed
qed

lemma transformFile_failure_world:
  "transformFile e f w = (Inl err, w') \<Longrightarrow> w' = w"
  using transformFile_world [of e f w "Inl err" w'] by auto

text \<open>
  Claim C10.  \<open>transformFile\<close> changes the world in one way only: after every registered
  tag of the file has been applied without error, and only if the final text differs from
  the text read, it writes that final text to the file's own path.  Whenever it throws (in
  particular when a rule throws) the world is exactly the one it started from, so the
  file on disk keeps its content.
\<close>

theorem transformFile_atomic:
  assumes "transformFile e f w = (r, w')"
  shows "(\<forall>src err. readFile w (path f) = Inr src
            \<and> applyTransformations e (path f) (transformations f) src [] = Inl err
            \<longrightarrow> r = Inl err \<and> w' = w)
       \<and> (isl r \<longrightarrow> w' = w)
       \<and> (w' \<noteq> w \<longrightarrow>
            (\<exists>src out chs. readFile w (path f) = Inr src
               \<and> applyTransformations e (path f) (transformations f) src [] = Inr (out, chs)
               \<and> chs = map (\<lambda>t. \<lparr>change_file = path f,
                                   description = getTransformationDescription t,
                                   change_type = Transformation\<rparr>)
                            (filter (\<lambda>t. transformers e t \<noteq> None) (transformations f))
               \<and> out \<noteq> src \<and> r = Inr chs
               \<and> w' = w\<lparr>tree := (tree w)(path f \<mapsto> RegularFile out)\<rparr>))"
proof -
  have 1: "\<forall>src err. readFile w (path f) = Inr src
            \<and> applyTransformations e (path f) (transformations f) src [] = Inl err
            \<longrightarrow> r = Inl err \<and> w' = w"
    using assms transformFile_throw [of w f _ e] by auto
  have 2: "isl r \<longrightarrow> w' = w"
    using assms transformFile_failure_world [of e f w _ w'] by (cases r) auto
  have 3: "w' \<noteq> w \<longrightarrow>
            (\<exists>src out chs. readFile w (path f) = Inr src
               \<and> applyTransformations e (path f) (transformations f) src [] = Inr (out, chs)
               \<and> chs = map (\<lambda>t. \<lparr>change_file = path f,
                                   description = getTransformationDescription t,
                                   change_type = Transformation\<rparr>)
                            (filter (\<lambda>t. transformers e t \<noteq> None) (transformations f))
               \<and> out \<noteq> src \<and> r = Inr chs
               \<and> w' = w\<lparr>tree := (tree w)(path f \<mapsto> RegularFile out)\<rparr>)"
  proof
    assume "w' \<noteq> w"
    with transformFile_world [OF assms] obtain src out chs where
      h: "readFile w (path f) = Inr src"
         "applyTransformations e (path f) (transformations f) src [] = Inr (out, chs)"
         "out \<noteq> src" "r = Inr chs"
         "w' = w\<lparr>tree := (tree w)(path f \<mapsto> RegularFile out)\<rparr>" by blast
    from applyTransformations_changes [OF h(2)] h show "\<exists>src out chs. readFile w (path f) = Inr src
               \<and> applyTransformations e (path f) (transformations f) src [] = Inr (out, chs)
               \<and> chs = map (\<lambda>t. \<lparr>change_file = path f,
                                   description = getTransformationDescription t,
                                   change_type = Transformation\<rparr>)
                            (filter (\<lambda>t. transformers e t \<noteq> None) (transformations f))
               \<and> out \<noteq> src \<and> r = Inr chs
               \<and> w' = w\<lparr>tree := (tree w)(path f \<mapsto> RegularFile out)\<rparr>"
      by auto
  qed
  from 1 2 3 show ?thesis by blast
qed

subsection \<open>The rules as \<open>transformFile\<close> calls them\<close>

lemma tree_rules_throw:
  "transformMiddlewareToProxy (asAny j) src = Inl ''j is not a function''"
  "updateRevalidateTag (asAny j) src = Inl ''j is not a function''"
  "updateNextImage (asAny j) src = Inl ''j is not a function''"
  "makeParamsAsync (asAny j) src = Inl ''j is not a function''"
  "makeSearchParamsAsync (asAny j) src = Inl ''j is not a function''"
  "makeCookiesHeadersAsync (asAny j) src = Inl ''j is not a function''"
  by (simp_all add: transformMiddlewareToProxy_def updateRevalidateTag_def updateNextImage_def
      makeParamsAsync_def makeSearchParamsAsync_def makeCookiesHeadersAsync_def
      rewriteSource_def asAny_def)

lemma registry:
  "transformers e ''middleware-to-proxy''
     = Some (transformMiddlewareToProxy (asAny (withParser e ''tsx'')))"
  "transformers e ''update-revalidate-tag''
     = Some (updateRevalidateTag (asAny (withParser e ''tsx'')))"
  "transformers e ''update-next-image'' = Some (updateNextImage (asAny (withParser e ''tsx'')))"
  "transformers e ''make-params-async'' = Some (makeParamsAsync (asAny (withParser e ''tsx'')))"
  "transformers e ''make-search-params-async''
     = Some (makeSearchParamsAsync (asAny (withParser e ''tsx'')))"
  "transformers e ''make-cookies-headers-async''
     = Some (makeCookiesHeadersAsync (asAny (withParser e ''tsx'')))"
  by (simp_all add: transformers_def Let_def)


lemma tree_tag_throws:
  assumes "t \<in> {''middleware-to-proxy'', ''update-revalidate-tag'', ''update-next-image'',
         ''make-params-async'', ''make-search-params-async'', ''make-cookies-headers-async''}"
  shows "\<exists>rule. transformers e t = Some rule \<and> rule src = Inl ''j is not a function''"
  using assms by (auto simp: registry tree_rules_throw)

lemma tagged_file_throws:
  assumes "readFile w (path f) = Inr src" and "transformations f = t # ts"
    and "t \<in> {''middleware-to-proxy'', ''update-revalidate-tag'', ''update-next-image'',
         ''make-params-async'', ''make-search-params-async'', ''make-cookies-headers-async''}"
  shows "transformFile e f w = (Inl (TransformationFailed t ''j is not a function''), w)"
proof -
  from tree_tag_throws [OF assms(3), of e src] obtain rule where
    "transformers e t = Some rule" "rule src = Inl ''j is not a function''" by blast
  then have "applyTransformations e (path f) (transformations f) src []
             = Inl (TransformationFailed t ''j is not a function'')"
    using assms(2) by simp
  with assms(1) show ?thesis by (rule transformFile_throw)
qed

lemma transformFile_page:
  "tree w ''app/page.tsx'' = Some (RegularFile pageSource) \<Longrightarrow>
   transformFile e pageFile w
     = (Inl (TransformationFailed ''make-params-async'' ''j is not a function''), w)"
  by (rule tagged_file_throws [where src = pageSource and ts = "[]"])
     (simp_all add: pageFile_def readFile_def)

lemma transformFile_hero:
  "tree w ''components/Hero.tsx'' = Some (RegularFile heroSource) \<Longrightarrow>
   transformFile e heroFile w
     = (Inl (TransformationFailed ''update-next-image'' ''j is not a function''), w)"
  by (rule tagged_file_throws [where src = heroSource and ts = "[]"])
     (simp_all add: heroFile_def readFile_def)

lemma transformFile_cache:
  "tree w ''lib/cache.ts'' = Some (RegularFile cacheSource) \<Longrightarrow>
   transformFile e cacheFile w
     = (Inl (TransformationFailed ''update-revalidate-tag'' ''j is not a function''), w)"
  by (rule tagged_file_throws [where src = cacheSource and ts = "[]"])
     (simp_all add: cacheFile_def readFile_def)

lemma transformFile_util:
  "transformFile e utilFile exampleWorld = (Inr [], exampleWorld)"
  by (simp add: transformFile_def utilFile_def pathExists_def readFile_def exampleWorld_def)

theorem transformFile_atomic_witness:
  "transformFile exampleEnv pageFile exampleWorld
     = (Inl (TransformationFailed ''make-params-async'' ''j is not a function''), exampleWorld)
   \<and> readFile exampleWorld (path pageFile) = Inr pageSource
   \<and> applyTransformations exampleEnv (path pageFile) (transformations pageFile) pageSource []
       = Inl (TransformationFailed ''make-params-async'' ''j is not a function'')
   \<and> transformFile exampleEnv utilFile exampleWorld = (Inr [], exampleWorld)"
proof -
  have p: "transformFile exampleEnv pageFile exampleWorld
     = (Inl (TransformationFailed ''make-params-async'' ''j is not a function''), exampleWorld)"
    by (rule transformFile_page) (simp add: exampleWorld_def)
  have u: "transformFile exampleEnv utilFile exampleWorld = (Inr [], exampleWorld)"
    by (rule transformFile_util)
  have rp: "readFile exampleWorld (path pageFile) = Inr pageSource"
    by (simp add: readFile_def exampleWorld_def pageFile_def)
  have ap: "applyTransformations exampleEnv (path pageFile) (transformations pageFile) pageSource []
       = Inl (TransformationFailed ''make-params-async'' ''j is not a function'')"
    by (simp add: pageFile_def registry tree_rules_throw)
  have t: "isl (Inl (TransformationFailed ''make-params-async'' ''j is not a function'')
                 :: error + Change list) \<longrightarrow> exampleWorld = exampleWorld"
    using transformFile_atomic [OF p] by blast
  from t p u rp ap show ?thesis by blast
qed

subsection \<open>A failing file does not stop the batch\<close>

lemma migrateFiles_append:
  "migrateFiles e (xs @ ys) r w =
     (case migrateFiles e xs r w of (r1, w1) \<Rightarrow> migrateFiles e ys r1 w1)"
  by (induction xs arbitrary: r w) (auto split: prod.splits sum.splits)

lemma migrateFiles_accounting:
  "migrateFiles e fs r w = (r', w') \<Longrightarrow>
   \<exists>rest. errors r' = errors r @ rest
        \<and> set (map error_file rest) \<subseteq> path ` set fs
        \<and> failed r' = failed r + length rest
        \<and> successful r' + failed r' = successful r + failed r + length fs"
proof (induction fs arbitrary: r w)
  case Nil
  then show ?case by simp
next
  case (Cons f fs)
  obtain res w1 where t: "transformFile e f w = (res, w1)" by (cases "transformFile e f w")
  show ?case
  proof (cases res)
    case (Inr chs)
    let ?r1 = "r\<lparr>successful := successful r + 1, changes := changes r @ chs\<rparr>"
    from Cons.prems t Inr have "migrateFiles e fs ?r1 w1 = (r', w')" by simp
    from Cons.IH [OF this] obtain rest where
      "errors r' = errors ?r1 @ rest" "set (map error_file rest) \<subseteq> path ` set fs"
      "failed r' = failed ?r1 + length rest"
      "successful r' + failed r' = successful ?r1 + failed ?r1 + length fs" by blast
    then have "errors r' = errors r @ rest \<and> set (map error_file rest) \<subseteq> path ` set (f # fs)
        \<and> failed r' = failed r + length rest
        \<and> successful r' + failed r' = successful r + failed r + length (f # fs)"
      by auto
    then show ?thesis by blast
  next
    case (Inl err)
    let ?entry = "\<lparr>error_file = path f, error_message = message err\<rparr>"
    let ?r1 = "r\<lparr>failed := failed r + 1, errors := errors r @ [?entry]\<rparr>"
    from Cons.prems t Inl have "migrateFiles e fs ?r1 w1 = (r', w')" by simp
    from Cons.IH [OF this] obtain rest where
      "errors r' = errors ?r1 @ rest" "set (map error_file rest) \<subseteq> path ` set fs"
      "failed r' = failed ?r1 + length rest"
      "successful r' + failed r' = successful ?r1 + failed ?r1 + length fs" by blast
    then have "errors r' = errors r @ (?entry # rest)
        \<and> set (map error_file (?entry # rest)) \<subseteq> path ` set (f # fs)
        \<and> failed r' = failed r + length (?entry # rest)
        \<and> successful r' + failed r' = successful r + failed r + length (f # fs)"
      by auto
    then show ?thesis by blast
  qed
qed

text \<open>
  Claim C4.  Let a rule throw on a file of the report: the tags before it were applied,
  the rule of tag \<open>t\<close> is registered and throws with message \<open>m\<close> on the text reached.
  Then \<open>transformFile\<close> throws the wrapped error naming the tag and the message, whatever
  tags follow \<open>t\<close> (none of them is applied) and without touching the world; \<open>migrate\<close>'s
  loop adds one to the failure count, appends one error entry for that file, and goes on
  with the remaining files from the same world.  At the end of the batch every file has
  been counted once as a success or a failure, and the entries after the one for this file
  belong to the remaining files.  \<open>migrate\<close> itself runs this loop over the files of the
  report, starting from the empty result.
\<close>

theorem migrate_isolates_failing_file:
  assumes "migrateFiles e pre r0 w0 = (r1, w1)"
    and "transformations f = ts1 @ t # ts2"
    and "readFile w1 (path f) = Inr src"
    and "applyTransformations e (path f) ts1 src [] = Inr (src1, chs1)"
    and "transformers e t = Some rule"
    and "rule src1 = Inl m"
  shows "transformFile e f w1 = (Inl (TransformationFailed t m), w1)
       \<and> message (TransformationFailed t m) = ''Transformation '' @ t @ '' failed: '' @ m
       \<and> migrateFiles e (pre @ f # post) r0 w0
           = migrateFiles e post
               (r1\<lparr>failed := failed r1 + 1,
                   errors := errors r1
                      @ [\<lparr>error_file = path f,
                          error_message = ''Transformation '' @ t @ '' failed: '' @ m\<rparr>]\<rparr>) w1
       \<and> (\<exists>r w rest. migrateFiles e (pre @ f # post) r0 w0 = (r, w)
             \<and> errors r = errors r1
                  @ \<lparr>error_file = path f,
                     error_message = ''Transformation '' @ t @ '' failed: '' @ m\<rparr> # rest
             \<and> set (map error_file rest) \<subseteq> path ` set post
             \<and> failed r = failed r1 + 1 + length rest
             \<and> successful r + failed r = successful r0 + failed r0 + length (pre @ f # post))
       \<and> (\<forall>a. analyze e w0 = Inr a \<and> filesToTransform a = pre @ f # post \<and> r0 = emptyResult
              \<longrightarrow> fst (migrate e w0) = Inr (fst (migrateFiles e (pre @ f # post) r0 w0)))"
proof -
  let ?entry = "\<lparr>error_file = path f,
                 error_message = ''Transformation '' @ t @ '' failed: '' @ m\<rparr>"
  let ?r2 = "r1\<lparr>failed := failed r1 + 1, errors := errors r1 @ [?entry]\<rparr>"
  have a: "applyTransformations e (path f) (transformations f) src []
           = Inl (TransformationFailed t m)"
    using assms(2,4,5,6) by (simp add: applyTransformations_append)
  have tf: "transformFile e f w1 = (Inl (TransformationFailed t m), w1)"
    using assms(3) a by (rule transformFile_throw)
  have step: "migrateFiles e (pre @ f # post) r0 w0 = migrateFiles e post ?r2 w1"
    using assms(1) tf by (simp add: migrateFiles_append)
  obtain r w where fin: "migrateFiles e post ?r2 w1 = (r, w)"
    by (cases "migrateFiles e post ?r2 w1")
  from migrateFiles_accounting [OF fin] obtain rest where
    rest: "errors r = errors ?r2 @ rest" "set (map error_file rest) \<subseteq> path ` set post"
          "failed r = failed ?r2 + length rest"
          "successful r + failed r = successful ?r2 + failed ?r2 + length post" by blast
  from migrateFiles_accounting [OF assms(1)] have
    pre: "successful r1 + failed r1 = successful r0 + failed r0 + length pre" by blast
  have "migrateFiles e (pre @ f # post) r0 w0 = (r, w)
        \<and> errors r = errors r1 @ ?entry # rest
        \<and> set (map error_file rest) \<subseteq> path ` set post
        \<and> failed r = failed r1 + 1 + length rest
        \<and> successful r + failed r = successful r0 + failed r0 + length (pre @ f # post)"
    using step fin rest pre by simp
  then have "\<exists>r w rest. migrateFiles e (pre @ f # post) r0 w0 = (r, w)
             \<and> errors r = errors r1 @ ?entry # rest
             \<and> set (map error_file rest) \<subseteq> path ` set post
             \<and> failed r = failed r1 + 1 + length rest
             \<and> successful r + failed r = successful r0 + failed r0 + length (pre @ f # post)"
    by blast
  moreover have "\<forall>a. analyze e w0 = Inr a \<and> filesToTransform a = pre @ f # post \<and> r0 = emptyResult
              \<longrightarrow> fst (migrate e w0) = Inr (fst (migrateFiles e (pre @ f # post) r0 w0))"
    by (simp add: migrate_def split: prod.splits)
  ultimately show ?thesis using tf step by simp
qed

lemma migrateFiles_example:
  "migrateFiles exampleEnv [pageFile, heroFile, cacheFile] emptyResult exampleWorld
   = (exampleResult, exampleWorld)"
proof -
  have 1: "tree exampleWorld ''app/page.tsx'' = Some (RegularFile pageSource)"
    by (simp add: exampleWorld_def)
  have 2: "tree exampleWorld ''components/Hero.tsx'' = Some (RegularFile heroSource)"
    by (simp add: exampleWorld_def)
  have 3: "tree exampleWorld ''lib/cache.ts'' = Some (RegularFile cacheSource)"
    by (simp add: exampleWorld_def)
  have 4: "path pageFile = ''app/page.tsx''" "path heroFile = ''components/Hero.tsx''"
    "path cacheFile = ''lib/cache.ts''"
    by (simp_all add: pageFile_def heroFile_def cacheFile_def)
  show ?thesis
    by (simp add: transformFile_page [OF 1] transformFile_hero [OF 2] transformFile_cache [OF 3]
        emptyResult_def exampleResult_def 4)
qed

theorem migrate_isolates_failing_file_witness:
  "migrateFiles exampleEnv [] emptyResult exampleWorld = (emptyResult, exampleWorld)
   \<and> transformations pageFile = [] @ ''make-params-async'' # []
   \<and> readFile exampleWorld (path pageFile) = Inr pageSource
   \<and> applyTransformations exampleEnv (path pageFile) [] pageSource [] = Inr (pageSource, [])
   \<and> transformers exampleEnv ''make-params-async''
       = Some (makeParamsAsync (asAny (withParser exampleEnv ''tsx'')))
   \<and> makeParamsAsync (asAny (withParser exampleEnv ''tsx'')) pageSource
       = Inl ''j is not a function''
   \<and> transformFile exampleEnv pageFile exampleWorld
       = (Inl (TransformationFailed ''make-params-async'' ''j is not a function''), exampleWorld)
   \<and> migrateFiles exampleEnv ([] @ pageFile # [heroFile, cacheFile]) emptyResult exampleWorld
       = (exampleResult, exampleWorld)
   \<and> failed exampleResult = 3"
proof -
  have h1: "migrateFiles exampleEnv [] emptyResult exampleWorld = (emptyResult, exampleWorld)"
    by simp
  have h2: "transformations pageFile = [] @ ''make-params-async'' # []"
    by (simp add: pageFile_def)
  have h3: "readFile exampleWorld (path pageFile) = Inr pageSource"
    by (simp add: readFile_def exampleWorld_def pageFile_def)
  have h4: "applyTransformations exampleEnv (path pageFile) [] pageSource [] = Inr (pageSource, [])"
    by simp
  have h5: "transformers exampleEnv ''make-params-async''
              = Some (makeParamsAsync (asAny (withParser exampleEnv ''tsx'')))"
    by (rule registry)
  have h6: "makeParamsAsync (asAny (withParser exampleEnv ''tsx'')) pageSource
              = Inl ''j is not a function''"
    by (rule tree_rules_throw)
  from migrate_isolates_failing_file [OF h1 h2 h3 h4 h5 h6, of "[heroFile, cacheFile]"]
  have c: "transformFile exampleEnv pageFile exampleWorld
       = (Inl (TransformationFailed ''make-params-async'' ''j is not a function''), exampleWorld)"
    by blast
  have m: "migrateFiles exampleEnv ([] @ pageFile # [heroFile, cacheFile]) emptyResult exampleWorld
           = (exampleResult, exampleWorld)"
    using migrateFiles_example by simp
  have f: "failed exampleResult = 3" by (simp add: exampleResult_def)
  from h1 h2 h3 h4 h5 h6 c m f show ?thesis by blast
qed

subsection \<open>The cache-invalidation rewrite\<close>

text \<open>What the rule does when it is given the API object of a jscodeshift run.\<close>

lemma pushMax_call:
  "pushMax (CallExpression c args) =
     (if c = Identifier ''revalidateTag'' \<and> length args = 1
      then CallExpression c (args @ [Literal ''max''])
      else CallExpression c args)"
  by (cases c) auto

lemma mapNodes_pushMax_identifier:
  "mapNodes pushMax c = Identifier n \<longleftrightarrow> c = Identifier n"
  by (cases c) (auto simp: pushMax_call)

lemma mapNodes_pushMax_call:
  "mapNodes pushMax (CallExpression callee args) =
     (if callee = Identifier ''revalidateTag'' \<and> length args = 1
      then CallExpression callee (map (mapNodes pushMax) args @ [Literal ''max''])
      else CallExpression (mapNodes pushMax callee) (map (mapNodes pushMax) args))"
  by (auto simp: pushMax_call mapNodes_pushMax_identifier)

lemma findCalls_children:
  "(\<And>a. a \<in> set args \<Longrightarrow> findCalls (f a) = map f (findCalls a)) \<Longrightarrow>
   concat (map findCalls (map f args)) = map f (concat (map findCalls args))"
  by (induction args) auto

lemma findCalls_name:
  "(\<And>a. a \<in> set_option name \<Longrightarrow> findCalls (f a) = map f (findCalls a)) \<Longrightarrow>
   (case map_option f name of None \<Rightarrow> [] | Some n \<Rightarrow> findCalls n)
     = map f (case name of None \<Rightarrow> [] | Some n \<Rightarrow> findCalls n)"
  by (cases name) auto

lemma findCalls_mapNodes_pushMax:
  "findCalls (mapNodes pushMax t) = map (mapNodes pushMax) (findCalls t)"
proof (induction t)
  case (CallExpression callee args)
  have "concat (map findCalls (map (mapNodes pushMax) args))
        = map (mapNodes pushMax) (concat (map findCalls args))"
    by (rule findCalls_children) (rule CallExpression.IH(2))
  with CallExpression.IH(1) show ?case
    by (simp add: pushMax_call mapNodes_pushMax_identifier)
next
  case (FunctionDeclaration name params body)
  have "concat (map findCalls (map (mapNodes pushMax) params))
        = map (mapNodes pushMax) (concat (map findCalls params))"
    by (rule findCalls_children) (rule FunctionDeclaration.IH(2))
  moreover have "(case map_option (mapNodes pushMax) name of None \<Rightarrow> [] | Some n \<Rightarrow> findCalls n)
     = map (mapNodes pushMax) (case name of None \<Rightarrow> [] | Some n \<Rightarrow> findCalls n)"
    by (rule findCalls_name) (rule FunctionDeclaration.IH(1))
  ultimately show ?case using FunctionDeclaration.IH(3) by simp
next
  case (FunctionExpression name params body)
  have "concat (map findCalls (map (mapNodes pushMax) params))
        = map (mapNodes pushMax) (concat (map findCalls params))"
    by (rule findCalls_children) (rule FunctionExpression.IH(2))
  moreover have "(case map_option (mapNodes pushMax) name of None \<Rightarrow> [] | Some n \<Rightarrow> findCalls n)
     = map (mapNodes pushMax) (case name of None \<Rightarrow> [] | Some n \<Rightarrow> findCalls n)"
    by (rule findCalls_name) (rule FunctionExpression.IH(1))
  ultimately show ?case using FunctionExpression.IH(3) by simp
next
  case (ImportDeclaration specifiers source)
  have "concat (map findCalls (map (mapNodes pushMax) specifiers))
        = map (mapNodes pushMax) (concat (map findCalls specifiers))"
    by (rule findCalls_children) (rule ImportDeclaration.IH(1))
  with ImportDeclaration.IH(2) show ?case
    by (cases "mapNodes pushMax source") simp_all
next
  case (OtherNode k children)
  have "concat (map findCalls (map (mapNodes pushMax) children))
        = map (mapNodes pushMax) (concat (map findCalls children))"
    by (rule findCalls_children) (rule OtherNode.IH)
  then show ?case by simp
qed simp_all

lemma updateRevalidateTag_runner:
  "parseSource j content = Inr root \<Longrightarrow>
   updateRevalidateTag (runnerAPI j) content = Inr (printSource j (mapNodes pushMax root))"
  by (simp add: updateRevalidateTag_def rewriteSource_def runnerAPI_def)

lemma parse_cache: "exampleParse cacheSource = Inr cacheTree"
  by (simp add: exampleParse_def cacheSource_def)

lemma print_cache: "exampleToSource cacheTreeRewritten = cacheRewritten"
  by (simp add: exampleToSource_def cacheTree_def cacheTreeRewritten_def)

lemma rewrite_cache: "mapNodes pushMax cacheTree = cacheTreeRewritten"
  by (simp add: cacheTree_def cacheTreeRewritten_def)

lemma withParser_example:
  "parseSource (withParser exampleEnv parser) = exampleParse"
  "printSource (withParser exampleEnv parser) = exampleToSource"
  by (simp_all add: withParser_def exampleEnv_def)

lemma updateRevalidateTag_runner_example:
  "updateRevalidateTag (runnerAPI (withParser exampleEnv ''tsx'')) cacheSource = Inr cacheRewritten"
proof -
  have "parseSource (withParser exampleEnv ''tsx'') cacheSource = Inr cacheTree"
    by (simp only: withParser_example parse_cache)
  from updateRevalidateTag_runner [OF this] show ?thesis
    by (simp only: withParser_example rewrite_cache print_cache)
qed


lemma migrate_example: "migrate exampleEnv exampleWorld = (Inr exampleResult, exampleWorld)"
proof -
  have "filesToTransform exampleAnalysis = [pageFile, heroFile, cacheFile]"
    by (simp add: exampleAnalysis_def)
  then show ?thesis
    by (simp add: migrate_def analyze_example migrateFiles_example del: migrateFiles.simps)
qed

text \<open>
  Claim C7 does not hold of the code.  The example file \<^verbatim>\<open>lib/cache.ts\<close> contains the call
  \<^verbatim>\<open>revalidateTag(tag)\<close> and no \<^verbatim>\<open>cacheLife\<close>; the scanner tags it
  \<open>update-revalidate-tag\<close>, as the claim says.  When \<open>migrate\<close> runs, \<open>transformFile\<close>
  hands the rule the parsing function in place of the API object, the rule reads the
  undefined field \<^verbatim>\<open>jscodeshift\<close> and throws \<^verbatim>\<open>j is not a function\<close>: the file is counted
  as failed and keeps its text, and no argument is appended.  Given the API object of a
  jscodeshift run, the same rule does return the text with \<^verbatim>\<open>"max"\<close> appended.
\<close>

theorem revalidateTag_call_not_rewritten:
  "cacheSource = ''revalidateTag(tag)''
   \<and> readFile exampleWorld ''lib/cache.ts'' = Inr cacheSource
   \<and> analyzeFile exampleWorld ''lib/cache.ts'' = Inr cacheFile
   \<and> transformations cacheFile = [''update-revalidate-tag'']
   \<and> transformFile exampleEnv cacheFile exampleWorld
       = (Inl (TransformationFailed ''update-revalidate-tag'' ''j is not a function''),
          exampleWorld)
   \<and> migrate exampleEnv exampleWorld = (Inr exampleResult, exampleWorld)
   \<and> successful exampleResult = 0
   \<and> updateRevalidateTag (runnerAPI (withParser exampleEnv ''tsx'')) cacheSource
       = Inr cacheRewritten"
proof -
  have t: "tree exampleWorld ''lib/cache.ts'' = Some (RegularFile cacheSource)"
    by (simp add: exampleWorld_def)
  have 1: "cacheSource = ''revalidateTag(tag)''" by (simp add: cacheSource_def)
  have 2: "readFile exampleWorld ''lib/cache.ts'' = Inr cacheSource"
    by (simp add: readFile_def t)
  have 3: "transformations cacheFile = [''update-revalidate-tag'']"
    by (simp add: cacheFile_def)
  have 4: "successful exampleResult = 0" by (simp add: exampleResult_def)
  from 1 2 analyzeFile_cache 3 transformFile_cache [OF t, of exampleEnv] migrate_example 4
       updateRevalidateTag_runner_example
  show ?thesis by blast
qed

subsection \<open>Detection after a rewrite\<close>




end
